theory Spec2Isabelle
  imports Main "HOL-Library.Sublist" "HOL-Library.AList"
begin

section \<open>Values and completion records\<close>

text \<open>
  Language values of the engine (\<^verbatim>\<open>value.mjs\<close>).  An object value is a reference into the
  heap; numbers keep the two non-finite constants the sources mention apart from the
  finite ones.
\<close>

datatype number = NaN | Infinity | Finite int

datatype Value =
    Undefined
  | Null
  | BooleanValue bool
  | NumberValue number
  | StringValue string
  | ObjectValue nat

text \<open>
  Modelled from the spec: the Completion record of \<^verbatim>\<open>completion.mjs\<close> (data model,
  section 3): a kind, a value that may be empty, and a target that only Break and Continue
  carry.  An abrupt completion is \<open>AbruptCompletion Type Value Target\<close>; the type keeps it
  apart from a normal one, as the engine's \<^verbatim>\<open>instanceof AbruptCompletion\<close> does.
\<close>

datatype abrupt_kind = throw | return | break | continue

datatype AbruptCompletion = AbruptCompletion abrupt_kind "Value option" "string option"

datatype 'a Completion = NormalCompletion 'a | Abrupt AbruptCompletion

definition Throw :: "Value option \<Rightarrow> AbruptCompletion" where
  "Throw v = AbruptCompletion throw v None"

text \<open>
  What a call of a JavaScript function of the sources gives its caller: the operand of a
  \<^verbatim>\<open>return\<close> statement, an abrupt completion handed back by a propagation macro, nothing
  (the body ends without \<^verbatim>\<open>return\<close>, the caller sees the host's \<^verbatim>\<open>undefined\<close>), or a
  host exception (a property read on the host's \<^verbatim>\<open>undefined\<close>).
\<close>

datatype 'a returned =
    Returns 'a
  | ReturnsAbrupt AbruptCompletion
  | ReturnsNothing
  | HostTypeError

text \<open>
  Modelled from the spec: the macro \<^verbatim>\<open>Q\<close> (and \<^verbatim>\<open>ReturnIfAbrupt\<close>) of
  \<^verbatim>\<open>completion.mjs\<close>, section 4.1: given a Completion, if abrupt, return it unchanged from
  the enclosing function at once; otherwise unwrap to the normal value and continue.  The
  continuation \<open>k\<close> is the rest of the enclosing function body.  A result that is not a
  Completion at all passes the macro as it is; \<open>NormalCompletion\<close> stands for it too.
\<close>

definition Q :: "'a Completion \<times> 'w \<Rightarrow> ('a \<Rightarrow> 'w \<Rightarrow> 'b returned \<times> 'w) \<Rightarrow> 'b returned \<times> 'w" where
  "Q m k = (case m of
              (Abrupt c, w) \<Rightarrow> (ReturnsAbrupt c, w)
            | (NormalCompletion v, w) \<Rightarrow> k v w)"

text \<open>
  \<^verbatim>\<open>Array.prototype.forEach\<close>: the callback runs on each element in order and what it
  returns is dropped.
\<close>

definition forEach :: "('a \<Rightarrow> 'w \<Rightarrow> 'r \<times> 'w) \<Rightarrow> 'a list \<Rightarrow> 'w \<Rightarrow> 'w" where
  "forEach callback xs w = foldl (\<lambda>w x. snd (callback x w)) w xs"

text \<open>\<^verbatim>\<open>New\<close> of \<^verbatim>\<open>value.mjs\<close> on a host string, and \<^verbatim>\<open>isFalse\<close> of a value.\<close>

definition NewValue :: "string \<Rightarrow> Value" where
  "NewValue s = StringValue s"

definition isFalse :: "Value \<Rightarrow> bool" where
  "isFalse v \<longleftrightarrow> v = BooleanValue False"


section \<open>Assignment expressions (src/runtime-semantics/AssignmentExpression.mjs)\<close>

text \<open>
  The node of the parser, opaque beyond its three fields; \<open>'n\<close> is the type of expression
  nodes.
\<close>

record 'n AssignmentExpressionNode =
  operator :: string
  left :: 'n
  right :: 'n

text \<open>
  The operations the function imports from modules that are not among the sources.  Each
  one that can run user code or touch bindings is a function on the engine state \<open>'s\<close>;
  \<open>'r\<close> is what evaluating an expression yields, a Reference or a plain value.
\<close>

record ('n, 'r, 's) engine =
  Evaluate_Expression :: "'n \<Rightarrow> 's \<Rightarrow> 'r Completion \<times> 's"
  GetValue :: "'r \<Rightarrow> 's \<Rightarrow> Value Completion \<times> 's"
  PutValue :: "'r \<Rightarrow> Value \<Rightarrow> 's \<Rightarrow> Value Completion \<times> 's"
  GetReferencedName :: "'r \<Rightarrow> Value"
  SetFunctionName :: "Value \<Rightarrow> Value \<Rightarrow> 's \<Rightarrow> Value Completion \<times> 's"
  HasOwnProperty :: "Value \<Rightarrow> Value \<Rightarrow> 's \<Rightarrow> Value Completion \<times> 's"
  EvaluateBinopValues :: "string \<Rightarrow> Value \<Rightarrow> Value \<Rightarrow> 's \<Rightarrow> Value Completion \<times> 's"
  IsAnonymousFunctionDefinition :: "'n \<Rightarrow> bool"
  IsIdentifierRef :: "'n \<Rightarrow> bool"
  isObjectLiteral :: "'n \<Rightarrow> bool"
  isArrayLiteral :: "'n \<Rightarrow> bool"

text \<open>
  The calls made on the engine, in the order they are made, each with its arguments and
  what it returned.  The function runs on the engine state paired with this record of calls.
\<close>

datatype ('n, 'r) call =
    Call_Evaluate_Expression 'n "'r Completion"
  | Call_GetValue 'r "Value Completion"
  | Call_HasOwnProperty Value Value "Value Completion"
  | Call_SetFunctionName Value Value "Value Completion"
  | Call_EvaluateBinopValues string Value Value "Value Completion"
  | Call_PutValue 'r Value "Value Completion"

definition logged :: "('s \<Rightarrow> 'a \<times> 's) \<Rightarrow> ('a \<Rightarrow> 'c) \<Rightarrow> 's \<times> 'c list \<Rightarrow> 'a \<times> ('s \<times> 'c list)" where
  "logged f ev w = (case w of (s, calls) \<Rightarrow>
                      (case f s of (a, s') \<Rightarrow> (a, (s', calls @ [ev a]))))"

definition Evaluate_AssignmentExpression ::
  "('n, 'r, 's) engine \<Rightarrow> 'n AssignmentExpressionNode \<Rightarrow> 's \<times> ('n, 'r) call list
     \<Rightarrow> Value returned \<times> ('s \<times> ('n, 'r) call list)" where
  "Evaluate_AssignmentExpression E node w =
    (let LeftHandSideExpression = left node;
         AssignmentExpression = right node
     in
     if operator node = ''='' then
       if \<not> isObjectLiteral E LeftHandSideExpression \<and> \<not> isArrayLiteral E LeftHandSideExpression then
         Q (logged (Evaluate_Expression E LeftHandSideExpression)
              (Call_Evaluate_Expression LeftHandSideExpression) w) (\<lambda>lref w.
         \<comment> \<open>\<^verbatim>\<open>ReturnIfAbrupt(lref)\<close>: \<open>lref\<close> is already unwrapped, the macro does nothing\<close>
         Q (logged (Evaluate_Expression E AssignmentExpression)
              (Call_Evaluate_Expression AssignmentExpression) w) (\<lambda>rref w.
         Q (logged (GetValue E rref) (Call_GetValue rref) w) (\<lambda>rval w.
         (\<lambda>rest.
            if IsAnonymousFunctionDefinition E AssignmentExpression
               \<and> IsIdentifierRef E LeftHandSideExpression then
              Q (logged (HasOwnProperty E rval (NewValue ''name''))
                   (Call_HasOwnProperty rval (NewValue ''name'')) w) (\<lambda>hasNameProperty w.
              if isFalse hasNameProperty then
                rest (snd (logged (SetFunctionName E rval (GetReferencedName E lref))
                             (Call_SetFunctionName rval (GetReferencedName E lref)) w))
              else rest w)
            else rest w)
         (\<lambda>w.
         Q (logged (PutValue E lref rval) (Call_PutValue lref rval) w) (\<lambda>_ w.
         (Returns rval, w))))))
       else (ReturnsNothing, w)
     else
       (let AssignmentOperator = operator node in
        Q (logged (Evaluate_Expression E LeftHandSideExpression)
             (Call_Evaluate_Expression LeftHandSideExpression) w) (\<lambda>lref w.
        Q (logged (GetValue E lref) (Call_GetValue lref) w) (\<lambda>lval w.
        Q (logged (Evaluate_Expression E AssignmentExpression)
             (Call_Evaluate_Expression AssignmentExpression) w) (\<lambda>rref w.
        Q (logged (GetValue E rref) (Call_GetValue rref) w) (\<lambda>rval w.
        (let op = butlast AssignmentOperator in
         Q (logged (EvaluateBinopValues E op lval rval)
              (Call_EvaluateBinopValues op lval rval) w) (\<lambda>r w.
         Q (logged (PutValue E lref r) (Call_PutValue lref r) w) (\<lambda>_ w.
         (Returns r, w))))))))))"

text \<open>The nodes handed to \<^verbatim>\<open>Evaluate_Expression\<close>, in call order.\<close>

fun evaluated :: "('n, 'r) call list \<Rightarrow> 'n list" where
  "evaluated [] = []"
| "evaluated (Call_Evaluate_Expression n c # cs) = n # evaluated cs"
| "evaluated (_ # cs) = evaluated cs"

text \<open>
  The abrupt completion a call of one of the sub-steps before the write returned, if it
  returned one: evaluating an expression, \<^verbatim>\<open>GetValue\<close>, the binary operator and
  \<^verbatim>\<open>HasOwnProperty\<close>.
\<close>

fun substep_abrupt :: "('n, 'r) call \<Rightarrow> AbruptCompletion option" where
  "substep_abrupt (Call_Evaluate_Expression n (Abrupt c)) = Some c"
| "substep_abrupt (Call_GetValue r (Abrupt c)) = Some c"
| "substep_abrupt (Call_HasOwnProperty v k (Abrupt c)) = Some c"
| "substep_abrupt (Call_EvaluateBinopValues op a b (Abrupt c)) = Some c"
| "substep_abrupt _ = None"

fun is_PutValue :: "('n, 'r) call \<Rightarrow> bool" where
  "is_PutValue (Call_PutValue r v c) = True"
| "is_PutValue _ = False"

fun is_SetFunctionName :: "('n, 'r) call \<Rightarrow> bool" where
  "is_SetFunctionName (Call_SetFunctionName f n c) = True"
| "is_SetFunctionName _ = False"


section \<open>A small engine for running the definitions on concrete programs\<close>

text \<open>
  Identifiers resolve against one table of variables; a function or class expression
  creates an object, which has an own \<^verbatim>\<open>name\<close> exactly when it is in the table of names
  (a class may declare a static member called \<^verbatim>\<open>name\<close>).
  It stands in for the evaluator and the abstract operations where a theorem is applied to
  a concrete program.
\<close>

datatype expr =
    Identifier string
  | NumericLiteral int
  | FunctionExpression "string option"
  | ClassExpression "string option" bool
  | ObjectLiteral
  | ArrayLiteral

datatype reference = Reference string | Plain Value

record machine =
  variables :: "string \<rightharpoonup> Value"
  names :: "nat \<rightharpoonup> Value"
  objects :: nat

definition ReferenceError :: AbruptCompletion where
  "ReferenceError = Throw (Some (StringValue ''ReferenceError''))"

definition TypeError :: AbruptCompletion where
  "TypeError = Throw (Some (StringValue ''TypeError''))"

fun machine_Evaluate_Expression :: "expr \<Rightarrow> machine \<Rightarrow> reference Completion \<times> machine" where
  "machine_Evaluate_Expression (Identifier x) s = (NormalCompletion (Reference x), s)"
| "machine_Evaluate_Expression (NumericLiteral n) s =
     (NormalCompletion (Plain (NumberValue (Finite n))), s)"
| "machine_Evaluate_Expression (FunctionExpression name) s =
     (NormalCompletion (Plain (ObjectValue (objects s))),
      s\<lparr>names := (case name of None \<Rightarrow> names s
                   | Some n \<Rightarrow> (names s)(objects s \<mapsto> StringValue n)),
        objects := Suc (objects s)\<rparr>)"
| "machine_Evaluate_Expression (ClassExpression name static_name) s =
     (NormalCompletion (Plain (ObjectValue (objects s))),
      s\<lparr>names := (if static_name then (names s)(objects s \<mapsto> ObjectValue (Suc (objects s)))
                   else case name of None \<Rightarrow> names s
                        | Some n \<Rightarrow> (names s)(objects s \<mapsto> StringValue n)),
        objects := Suc (Suc (objects s))\<rparr>)"
| "machine_Evaluate_Expression ObjectLiteral s =
     (NormalCompletion (Plain (ObjectValue (objects s))), s\<lparr>objects := Suc (objects s)\<rparr>)"
| "machine_Evaluate_Expression ArrayLiteral s =
     (NormalCompletion (Plain (ObjectValue (objects s))), s\<lparr>objects := Suc (objects s)\<rparr>)"

fun machine_GetValue :: "reference \<Rightarrow> machine \<Rightarrow> Value Completion \<times> machine" where
  "machine_GetValue (Plain v) s = (NormalCompletion v, s)"
| "machine_GetValue (Reference x) s =
     (case variables s x of
        Some v \<Rightarrow> (NormalCompletion v, s)
      | None \<Rightarrow> (Abrupt ReferenceError, s))"

fun machine_PutValue :: "reference \<Rightarrow> Value \<Rightarrow> machine \<Rightarrow> Value Completion \<times> machine" where
  "machine_PutValue (Reference x) v s =
     (NormalCompletion Undefined, s\<lparr>variables := (variables s)(x \<mapsto> v)\<rparr>)"
| "machine_PutValue (Plain u) v s = (Abrupt ReferenceError, s)"

fun machine_GetReferencedName :: "reference \<Rightarrow> Value" where
  "machine_GetReferencedName (Reference x) = StringValue x"
| "machine_GetReferencedName (Plain v) = Undefined"

fun machine_SetFunctionName :: "Value \<Rightarrow> Value \<Rightarrow> machine \<Rightarrow> Value Completion \<times> machine" where
  "machine_SetFunctionName (ObjectValue k) name s =
     (NormalCompletion (BooleanValue True), s\<lparr>names := (names s)(k \<mapsto> name)\<rparr>)"
| "machine_SetFunctionName v name s = (Abrupt TypeError, s)"

fun machine_HasOwnProperty :: "Value \<Rightarrow> Value \<Rightarrow> machine \<Rightarrow> Value Completion \<times> machine" where
  "machine_HasOwnProperty (ObjectValue k) P s =
     (NormalCompletion (BooleanValue (P = StringValue ''name'' \<and> names s k \<noteq> None)), s)"
| "machine_HasOwnProperty v P s = (Abrupt TypeError, s)"

fun machine_EvaluateBinopValues ::
  "string \<Rightarrow> Value \<Rightarrow> Value \<Rightarrow> machine \<Rightarrow> Value Completion \<times> machine" where
  "machine_EvaluateBinopValues op (NumberValue (Finite a)) (NumberValue (Finite b)) s =
     (if op = ''+'' then (NormalCompletion (NumberValue (Finite (a + b))), s)
      else if op = ''-'' then (NormalCompletion (NumberValue (Finite (a - b))), s)
      else if op = ''*'' then (NormalCompletion (NumberValue (Finite (a * b))), s)
      else (Abrupt TypeError, s))"
| "machine_EvaluateBinopValues op a b s = (Abrupt TypeError, s)"

definition machine_engine :: "(expr, reference, machine) engine" where
  "machine_engine =
     \<lparr>Evaluate_Expression = machine_Evaluate_Expression,
      GetValue = machine_GetValue,
      PutValue = machine_PutValue,
      GetReferencedName = machine_GetReferencedName,
      SetFunctionName = machine_SetFunctionName,
      HasOwnProperty = machine_HasOwnProperty,
      EvaluateBinopValues = machine_EvaluateBinopValues,
      IsAnonymousFunctionDefinition =
        (\<lambda>n. case n of FunctionExpression None \<Rightarrow> True
              | ClassExpression None static_name \<Rightarrow> True
              | _ \<Rightarrow> False),
      IsIdentifierRef = (\<lambda>n. case n of Identifier x \<Rightarrow> True | _ \<Rightarrow> False),
      isObjectLiteral = (\<lambda>n. n = ObjectLiteral),
      isArrayLiteral = (\<lambda>n. n = ArrayLiteral)\<rparr>"

definition machine0 :: machine where
  "machine0 = \<lparr>variables = [''x'' \<mapsto> NumberValue (Finite 5)], names = Map.empty, objects = 0\<rparr>"


section \<open>The worker: rejection tracking (part\_000, lines 34--48 and 124--130)\<close>

text \<open>
  A JavaScript \<^verbatim>\<open>Set\<close> is a collection without duplicates that iterates in insertion
  order: a list without repetition.  \<^verbatim>\<open>add\<close> of a member changes nothing, also not its place.
\<close>

definition Set_add :: "'a \<Rightarrow> 'a list \<Rightarrow> 'a list" where
  "Set_add x S = (if x \<in> set S then S else S @ [x])"

definition Set_delete :: "'a \<Rightarrow> 'a list \<Rightarrow> 'a list" where
  "Set_delete x S = removeAll x S"

text \<open>The \<^verbatim>\<open>switch\<close> of the tracker handed to \<^verbatim>\<open>ManagedRealm\<close>, on the set \<^verbatim>\<open>promises\<close>.\<close>

definition promiseRejectionTracker :: "'p list \<Rightarrow> 'p \<Rightarrow> string \<Rightarrow> 'p list" where
  "promiseRejectionTracker promises promise operation =
     (if operation = ''reject'' then Set_add promise promises
      else if operation = ''handle'' then Set_delete promise promises
      else promises)"

text \<open>
  A session starts from \<^verbatim>\<open>new Set()\<close>; the engine calls the tracker some number of times
  while the code runs.  \<open>session_promises calls\<close> is the set after these calls, in their order.
\<close>

definition session_promises :: "('p \<times> string) list \<Rightarrow> 'p list" where
  "session_promises calls =
     foldl (\<lambda>promises (promise, operation). promiseRejectionTracker promises promise operation) [] calls"

datatype 'i message =
    Console string "'i list"
  | UnhandledRejection 'i

text \<open>
  The loop \<^verbatim>\<open>for (const promise of promises)\<close>: one message per member, in iteration order,
  carrying \<^verbatim>\<open>inspect(promise.PromiseResult)\<close>.  The engine's \<^verbatim>\<open>inspect\<close> and the slot read
  are parameters.
\<close>

definition report_unhandled :: "(Value \<Rightarrow> 'i) \<Rightarrow> ('p \<Rightarrow> Value) \<Rightarrow> 'p list \<Rightarrow> 'i message list" where
  "report_unhandled inspect result_of promises =
     map (\<lambda>promise. UnhandledRejection (inspect (result_of promise))) promises"

text \<open>A promise is tracked by a call list when some reject of it has no later handle.\<close>

definition rejected_unhandled :: "('p \<times> string) list \<Rightarrow> 'p \<Rightarrow> bool" where
  "rejected_unhandled calls p \<longleftrightarrow>
     (\<exists>xs ys. calls = xs @ (p, ''reject'') # ys \<and> (p, ''handle'') \<notin> set ys)"


section \<open>The worker: running the code (part\_000, lines 97--113)\<close>










section \<open>Objects, environment records and the heap (part\_001)\<close>

text \<open>
  A property descriptor with the fields the engine's \<^verbatim>\<open>Descriptor\<close> keeps; a field that
  was not given is the host's \<^verbatim>\<open>undefined\<close>, here \<open>None\<close>.
\<close>

record PropertyDescriptor =
  Value :: "Value option"
  Get :: "Value option"
  Set :: "Value option"
  Writable :: "Value option"
  Enumerable :: "Value option"
  Configurable :: "Value option"

text \<open>
  \<^verbatim>\<open>Descriptor({Value, Writable, Enumerable, Configurable})\<close>, the one shape the sources
  build.  The value may be the host's \<^verbatim>\<open>undefined\<close> (a table entry that is not there).
\<close>

definition Descriptor :: "Value option \<Rightarrow> Value \<Rightarrow> Value \<Rightarrow> Value \<Rightarrow> PropertyDescriptor" where
  "Descriptor v w e c =
     \<lparr>Value = v, Get = None, Set = None,
      Writable = Some w, Enumerable = Some e, Configurable = Some c\<rparr>"

text \<open>
  An object of the engine: its internal slots by name and its own properties in creation
  order.  A slot that holds the host's \<^verbatim>\<open>undefined\<close> reads like a slot that is not there,
  and is modelled so.
\<close>

record Object =
  InternalSlots :: "string \<rightharpoonup> Value"
  properties :: "(Value \<times> PropertyDescriptor) list"

text \<open>
  A field for an environment record holds a reference to one, or an engine value
  (\<^verbatim>\<open>Value.null\<close> at the outermost record, \<^verbatim>\<open>Value.undefined\<close> before the field is set).
\<close>

datatype EnvRef = NotAnEnv Value | EnvAt nat

record EnvironmentRecord =
  OuterEnv :: EnvRef

record ObjectEnvironmentRecord = EnvironmentRecord +
  BindingObject :: Value
  IsWithEnvironment :: Value

text \<open>
  Modelled from the spec: the class \<^verbatim>\<open>DeclarativeEnvironmentRecord\<close> (section 3, Declarative
  variant): a mapping from binding name to value, mutable flag and initialized flag, empty
  when the record is constructed; the constructor's argument is the outer environment.
\<close>

record DeclarativeEnvironmentRecord = EnvironmentRecord +
  bindings :: "(Value \<times> Value option \<times> bool \<times> bool) list"

record GlobalEnvironmentRecord = EnvironmentRecord +
  ObjectRecord :: EnvRef
  GlobalThisValue :: Value
  DeclarativeRecord :: EnvRef
  VarNames :: "Value list"

text \<open>
  Objects and environment records are host objects with identity: cells of a heap.  The
  address of a cell is its index; \<^verbatim>\<open>new\<close> appends a cell, so the new address was not
  in use before.
\<close>

datatype cell =
    ObjectCell Object
  | ObjectEnvironmentCell ObjectEnvironmentRecord
  | DeclarativeEnvironmentCell DeclarativeEnvironmentRecord
  | GlobalEnvironmentCell GlobalEnvironmentRecord

type_synonym heap = "cell list"

definition alloc :: "cell \<Rightarrow> heap \<Rightarrow> nat \<times> heap" where
  "alloc c h = (length h, h @ [c])"

definition lookup :: "heap \<Rightarrow> nat \<Rightarrow> cell option" where
  "lookup h a = (if a < length h then Some (h ! a) else None)"

definition object_at :: "heap \<Rightarrow> Value option \<Rightarrow> Object option" where
  "object_at h v =
     (case v of
        Some (ObjectValue a) \<Rightarrow> (case lookup h a of Some (ObjectCell obj) \<Rightarrow> Some obj | _ \<Rightarrow> None)
      | _ \<Rightarrow> None)"

text \<open>The own property of an object under a key, if it has one.\<close>

definition own_property :: "heap \<Rightarrow> Value option \<Rightarrow> Value \<Rightarrow> PropertyDescriptor option" where
  "own_property h O' P =
     (case object_at h O' of Some obj \<Rightarrow> map_of (properties obj) P | None \<Rightarrow> None)"

text \<open>\<^verbatim>\<open>O[slot] = v\<close> on an object value.\<close>

definition set_slot :: "Value \<Rightarrow> string \<Rightarrow> Value option \<Rightarrow> heap \<Rightarrow> heap" where
  "set_slot O' slot v h =
     (case O' of
        ObjectValue a \<Rightarrow>
          (case lookup h a of
             Some (ObjectCell obj) \<Rightarrow>
               h[a := ObjectCell (obj\<lparr>InternalSlots := (InternalSlots obj)(slot := v)\<rparr>)]
           | _ \<Rightarrow> h)
      | _ \<Rightarrow> h)"

definition MakeBasicObject :: "string list \<Rightarrow> heap \<Rightarrow> Value \<times> heap" where
  "MakeBasicObject internalSlotsList h =
     (let (a, h) = alloc (ObjectCell \<lparr>InternalSlots = Map.empty, properties = []\<rparr>) h;
          obj = ObjectValue a;
          h = foldl (\<lambda>h s. set_slot obj s (Some Undefined) h) h internalSlotsList;
          h = (if ''Extensible'' \<in> set internalSlotsList
               then set_slot obj ''Extensible'' (Some (BooleanValue True)) h
               else h)
      in (obj, h))"

definition OrdinaryObjectCreate :: "Value option \<Rightarrow> string list option \<Rightarrow> heap \<Rightarrow> Value \<times> heap" where
  "OrdinaryObjectCreate proto additionalInternalSlotsList h =
     (let internalSlotsList = [''Prototype'', ''Extensible''];
          internalSlotsList =
            (case additionalInternalSlotsList of
               None \<Rightarrow> internalSlotsList
             | Some additional \<Rightarrow> internalSlotsList @ additional);
          (O', h) = MakeBasicObject internalSlotsList h;
          h = set_slot O' ''Prototype'' proto h
      in (O', h))"

definition NewObjectEnvironment :: "Value \<Rightarrow> Value \<Rightarrow> EnvRef \<Rightarrow> heap \<Rightarrow> EnvRef \<times> heap" where
  "NewObjectEnvironment BindingObject' W OuterEnv' h =
     (let (env, h) = alloc (ObjectEnvironmentCell
            \<lparr>OuterEnv = OuterEnv', BindingObject = BindingObject', IsWithEnvironment = W\<rparr>) h
      in (EnvAt env, h))"

definition new_DeclarativeEnvironmentRecord :: "EnvRef \<Rightarrow> heap \<Rightarrow> EnvRef \<times> heap" where
  "new_DeclarativeEnvironmentRecord OuterEnv' h =
     (let (env, h) = alloc (DeclarativeEnvironmentCell \<lparr>OuterEnv = OuterEnv', bindings = []\<rparr>) h
      in (EnvAt env, h))"

definition NewGlobalEnvironment :: "Value \<Rightarrow> Value \<Rightarrow> heap \<Rightarrow> EnvRef \<times> heap" where
  "NewGlobalEnvironment GlobalObject' thisValue h =
     (let (objRec, h) = NewObjectEnvironment GlobalObject' (BooleanValue False) (NotAnEnv Null) h;
          (dclRec, h) = new_DeclarativeEnvironmentRecord (NotAnEnv Null) h;
          (env, h) = alloc (GlobalEnvironmentCell
            \<lparr>OuterEnv = NotAnEnv Null,
             ObjectRecord = objRec,
             GlobalThisValue = thisValue,
             DeclarativeRecord = dclRec,
             VarNames = []\<rparr>) h
      in (EnvAt env, h))"


section \<open>Realms (part\_001)\<close>

type_synonym intrinsics = "string \<rightharpoonup> Value"

text \<open>The class \<^verbatim>\<open>Realm\<close>; a field that is the host's \<^verbatim>\<open>undefined\<close> is \<open>None\<close>.\<close>

record Realm =
  Intrinsics :: "intrinsics option"
  GlobalObject :: "Value option"
  GlobalEnv :: "EnvRef option"
  TemplateMap :: "Value list option"
  HostDefined :: "Value option"
  randomState :: "Value option"

definition new_Realm :: Realm where
  "new_Realm =
     \<lparr>Intrinsics = None, GlobalObject = None, GlobalEnv = None,
      TemplateMap = None, HostDefined = None, randomState = None\<rparr>"

text \<open>
  The bootstrap routines, by name, in the order \<^verbatim>\<open>CreateIntrinsics\<close> calls them (lines 70
  to 174).
\<close>

definition bootstrap_calls :: "string list" where
  "bootstrap_calls =
     [''bootstrapFunctionPrototype'', ''bootstrapObjectPrototype'',
      ''bootstrapThrowTypeError'',
      ''bootstrapEval'', ''bootstrapIsFinite'', ''bootstrapIsNaN'', ''bootstrapParseFloat'',
      ''bootstrapParseInt'', ''bootstrapURIHandling'',
      ''bootstrapObject'',
      ''bootstrapErrorPrototype'', ''bootstrapError'', ''bootstrapNativeError'',
      ''bootstrapAggregateErrorPrototype'', ''bootstrapAggregateError'',
      ''bootstrapFunction'',
      ''bootstrapIteratorPrototype'', ''bootstrapAsyncIteratorPrototype'',
      ''bootstrapArrayIteratorPrototype'', ''bootstrapMapIteratorPrototype'',
      ''bootstrapSetIteratorPrototype'', ''bootstrapStringIteratorPrototype'',
      ''bootstrapRegExpStringIteratorPrototype'', ''bootstrapForInIteratorPrototype'',
      ''bootstrapStringPrototype'', ''bootstrapString'',
      ''bootstrapArrayPrototype'', ''bootstrapArray'',
      ''bootstrapBooleanPrototype'', ''bootstrapBoolean'',
      ''bootstrapNumberPrototype'', ''bootstrapNumber'',
      ''bootstrapBigIntPrototype'', ''bootstrapBigInt'',
      ''bootstrapSymbolPrototype'', ''bootstrapSymbol'',
      ''bootstrapPromisePrototype'', ''bootstrapPromise'',
      ''bootstrapProxy'',
      ''bootstrapReflect'',
      ''bootstrapMath'',
      ''bootstrapDatePrototype'', ''bootstrapDate'',
      ''bootstrapRegExpPrototype'', ''bootstrapRegExp'',
      ''bootstrapSetPrototype'', ''bootstrapSet'',
      ''bootstrapMapPrototype'', ''bootstrapMap'',
      ''bootstrapGeneratorFunctionPrototypePrototype'',
      ''bootstrapGeneratorFunctionPrototype'', ''bootstrapGeneratorFunction'',
      ''bootstrapAsyncFunctionPrototype'', ''bootstrapAsyncFunction'',
      ''bootstrapAsyncGeneratorFunctionPrototypePrototype'',
      ''bootstrapAsyncGeneratorFunctionPrototype'', ''bootstrapAsyncGeneratorFunction'',
      ''bootstrapAsyncFromSyncIteratorPrototype'',
      ''bootstrapArrayBufferPrototype'', ''bootstrapArrayBuffer'',
      ''bootstrapTypedArrayPrototype'', ''bootstrapTypedArray'',
      ''bootstrapTypedArrayPrototypes'', ''bootstrapTypedArrayConstructors'',
      ''bootstrapDataViewPrototype'', ''bootstrapDataView'',
      ''bootstrapJSON'',
      ''bootstrapWeakMapPrototype'', ''bootstrapWeakMap'', ''bootstrapWeakSetPrototype'',
      ''bootstrapWeakSet'',
      ''bootstrapWeakRefPrototype'', ''bootstrapWeakRef'',
      ''bootstrapFinalizationRegistryPrototype'', ''bootstrapFinalizationRegistry'']"

text \<open>
  What \<^verbatim>\<open>CreateIntrinsics\<close> does, step by step: an assignment to the intrinsics table, a call
  of a bootstrap routine, the call of \<^verbatim>\<open>AddRestrictedFunctionProperties\<close> with its first
  argument.
\<close>

datatype realm_step =
    Assigned_intrinsic string Value
  | Called string
  | Called_AddRestrictedFunctionProperties "Value option"

text \<open>
  The bootstrap routines and \<^verbatim>\<open>AddRestrictedFunctionProperties\<close> are not among the sources
  and are parameters.  Modelled from the spec (section 9): the intrinsics mapping is
  injected into every bootstrap routine as an explicit parameter; a routine acts on the
  mapping and on the heap.
\<close>

definition CreateIntrinsics ::
  "(string \<Rightarrow> intrinsics \<times> heap \<Rightarrow> intrinsics \<times> heap)
     \<Rightarrow> (Value option \<Rightarrow> intrinsics \<times> heap \<Rightarrow> intrinsics \<times> heap)
     \<Rightarrow> Realm \<Rightarrow> heap \<times> realm_step list
     \<Rightarrow> intrinsics \<times> (Realm \<times> heap \<times> realm_step list)" where
  "CreateIntrinsics bootstrap AddRestrictedFunctionProperties realmRec w =
     (case w of (h, steps) \<Rightarrow>
      let intrinsics = Map.empty;
          (proto, h) = OrdinaryObjectCreate (Some Null) None h;
          intrinsics = intrinsics(''%Object.prototype%'' \<mapsto> proto);
          steps = steps @ [Assigned_intrinsic ''%Object.prototype%'' proto];
          (ih, steps) = foldl (\<lambda>(ih, steps) routine. (bootstrap routine ih, steps @ [Called routine]))
                          ((intrinsics, h), steps) bootstrap_calls;
          F = fst ih ''%Function.prototype%'';
          (intrinsics, h) = AddRestrictedFunctionProperties F ih;
          steps = steps @ [Called_AddRestrictedFunctionProperties F]
      in (intrinsics, (realmRec\<lparr>Intrinsics := Some intrinsics\<rparr>, h, steps)))"

definition CreateRealm ::
  "(string \<Rightarrow> intrinsics \<times> heap \<Rightarrow> intrinsics \<times> heap)
     \<Rightarrow> (Value option \<Rightarrow> intrinsics \<times> heap \<Rightarrow> intrinsics \<times> heap)
     \<Rightarrow> heap \<times> realm_step list \<Rightarrow> Realm \<times> heap \<times> realm_step list" where
  "CreateRealm bootstrap AddRestrictedFunctionProperties w =
     (let realmRec = new_Realm;
          (intrinsics, (realmRec, h, steps)) =
             CreateIntrinsics bootstrap AddRestrictedFunctionProperties realmRec w;
          realmRec = realmRec\<lparr>GlobalObject := Some Undefined\<rparr>;
          realmRec = realmRec\<lparr>GlobalEnv := Some (NotAnEnv Undefined)\<rparr>;
          realmRec = realmRec\<lparr>TemplateMap := Some []\<rparr>
      in (realmRec, h, steps))"

text \<open>The routines that were called, in call order.\<close>

fun called :: "realm_step list \<Rightarrow> string list" where
  "called [] = []"
| "called (Called r # steps) = r # called steps"
| "called (_ # steps) = called steps"

text \<open>
  The families of bootstrap routines the specification names, and the routines of each.
  \<open>WeakCollections\<close> are the routines for WeakMap, WeakSet, WeakRef and
  FinalizationRegistry; \<open>Collections\<close> those for Set and Map.
\<close>

datatype family =
    FunctionObjectPrimitives
  | GlobalFunctions
  | ObjectConstructor
  | ErrorFamily
  | FunctionConstructor
  | IteratorFamily
  | PrimitiveWrappers
  | PromiseFamily
  | ProxyReflect
  | MathNamespace
  | DateRegExp
  | Collections
  | GeneratorAsyncFamilies
  | TypedArrayFamily
  | DataViewJSON
  | WeakCollections

fun members :: "family \<Rightarrow> string list" where
  "members FunctionObjectPrimitives =
     [''bootstrapFunctionPrototype'', ''bootstrapObjectPrototype'',
      ''bootstrapThrowTypeError'']"
| "members GlobalFunctions =
     [''bootstrapEval'', ''bootstrapIsFinite'', ''bootstrapIsNaN'', ''bootstrapParseFloat'',
      ''bootstrapParseInt'', ''bootstrapURIHandling'']"
| "members ObjectConstructor =
     [''bootstrapObject'']"
| "members ErrorFamily =
     [''bootstrapAggregateError'', ''bootstrapAggregateErrorPrototype'', ''bootstrapError'',
      ''bootstrapErrorPrototype'', ''bootstrapNativeError'']"
| "members FunctionConstructor =
     [''bootstrapFunction'']"
| "members IteratorFamily =
     [''bootstrapArrayIteratorPrototype'', ''bootstrapAsyncIteratorPrototype'',
      ''bootstrapForInIteratorPrototype'', ''bootstrapIteratorPrototype'',
      ''bootstrapMapIteratorPrototype'', ''bootstrapRegExpStringIteratorPrototype'',
      ''bootstrapSetIteratorPrototype'', ''bootstrapStringIteratorPrototype'']"
| "members PrimitiveWrappers =
     [''bootstrapArray'', ''bootstrapArrayPrototype'', ''bootstrapBigInt'',
      ''bootstrapBigIntPrototype'', ''bootstrapBoolean'', ''bootstrapBooleanPrototype'',
      ''bootstrapNumber'', ''bootstrapNumberPrototype'', ''bootstrapString'',
      ''bootstrapStringPrototype'', ''bootstrapSymbol'', ''bootstrapSymbolPrototype'']"
| "members PromiseFamily =
     [''bootstrapPromise'', ''bootstrapPromisePrototype'']"
| "members ProxyReflect =
     [''bootstrapProxy'', ''bootstrapReflect'']"
| "members MathNamespace =
     [''bootstrapMath'']"
| "members DateRegExp =
     [''bootstrapDate'', ''bootstrapDatePrototype'', ''bootstrapRegExp'',
      ''bootstrapRegExpPrototype'']"
| "members Collections =
     [''bootstrapMap'', ''bootstrapMapPrototype'', ''bootstrapSet'', ''bootstrapSetPrototype'']"
| "members GeneratorAsyncFamilies =
     [''bootstrapAsyncFromSyncIteratorPrototype'', ''bootstrapAsyncFunction'',
      ''bootstrapAsyncFunctionPrototype'', ''bootstrapAsyncGeneratorFunction'',
      ''bootstrapAsyncGeneratorFunctionPrototype'',
      ''bootstrapAsyncGeneratorFunctionPrototypePrototype'', ''bootstrapGeneratorFunction'',
      ''bootstrapGeneratorFunctionPrototype'',
      ''bootstrapGeneratorFunctionPrototypePrototype'']"
| "members TypedArrayFamily =
     [''bootstrapArrayBuffer'', ''bootstrapArrayBufferPrototype'', ''bootstrapTypedArray'',
      ''bootstrapTypedArrayConstructors'', ''bootstrapTypedArrayPrototype'',
      ''bootstrapTypedArrayPrototypes'']"
| "members DataViewJSON =
     [''bootstrapDataView'', ''bootstrapDataViewPrototype'', ''bootstrapJSON'']"
| "members WeakCollections =
     [''bootstrapFinalizationRegistry'', ''bootstrapFinalizationRegistryPrototype'',
      ''bootstrapWeakMap'', ''bootstrapWeakMapPrototype'', ''bootstrapWeakRef'',
      ''bootstrapWeakRefPrototype'', ''bootstrapWeakSet'', ''bootstrapWeakSetPrototype'']"

definition families :: "family list" where
  "families =
     [FunctionObjectPrimitives, GlobalFunctions, ObjectConstructor, ErrorFamily,
      FunctionConstructor, IteratorFamily, PrimitiveWrappers, PromiseFamily, ProxyReflect,
      MathNamespace, DateRegExp, Collections, GeneratorAsyncFamilies, TypedArrayFamily,
      DataViewJSON, WeakCollections]"

definition family_of :: "string \<Rightarrow> family option" where
  "family_of routine = find (\<lambda>f. routine \<in> set (members f)) families"

text \<open>
  The specification's own grouping and order (section 4.4): it counts WeakMap, WeakSet,
  WeakRef and FinalizationRegistry among the collection types, which it places before the
  generator and async-function families.
\<close>

definition spec_family_of :: "string \<Rightarrow> family option" where
  "spec_family_of routine =
     (case family_of routine of
        Some WeakCollections \<Rightarrow> Some Collections
      | f \<Rightarrow> f)"

definition spec_order :: "family list" where
  "spec_order =
     [FunctionObjectPrimitives, GlobalFunctions, ObjectConstructor, ErrorFamily,
      FunctionConstructor, IteratorFamily, PrimitiveWrappers, PromiseFamily, ProxyReflect,
      MathNamespace, DateRegExp, Collections, GeneratorAsyncFamilies, TypedArrayFamily,
      DataViewJSON]"

definition SetRealmGlobalObject :: "Realm \<Rightarrow> Value \<Rightarrow> Value \<Rightarrow> heap \<Rightarrow> Realm returned \<times> heap" where
  "SetRealmGlobalObject realmRec globalObj thisValue h =
     (let intrinsics = Intrinsics realmRec in
      case (if globalObj = Undefined then
              (case intrinsics of
                 None \<Rightarrow> None
               | Some intrinsics \<Rightarrow>
                   Some (OrdinaryObjectCreate (intrinsics ''%Object.prototype%'') None h))
            else Some (globalObj, h)) of
        None \<Rightarrow> (HostTypeError, h)
      | Some (globalObj, h) \<Rightarrow>
          (let thisValue = (if thisValue = Undefined then globalObj else thisValue);
               realmRec = realmRec\<lparr>GlobalObject := Some globalObj\<rparr>;
               (newGlobalEnv, h) = NewGlobalEnvironment globalObj thisValue h;
               realmRec = realmRec\<lparr>GlobalEnv := Some newGlobalEnv\<rparr>
           in (Returns realmRec, h)))"

text \<open>The names of the two lists of \<^verbatim>\<open>SetDefaultGlobalBindings\<close> (lines 278 to 357).\<close>

definition value_properties :: "(string \<times> Value) list" where
  "value_properties =
     [(''Infinity'', NumberValue Infinity),
      (''NaN'', NumberValue NaN),
      (''undefined'', Undefined)]"

definition intrinsic_properties :: "string list" where
  "intrinsic_properties =
     [''eval'', ''isFinite'', ''isNaN'', ''parseFloat'', ''parseInt'',
      ''decodeURI'', ''decodeURIComponent'', ''encodeURI'', ''encodeURIComponent'', ''AggregateError'',
      ''Array'', ''ArrayBuffer'', ''Boolean'', ''BigInt'', ''BigInt64Array'',
      ''BigUint64Array'', ''DataView'', ''Date'', ''Error'', ''EvalError'',
      ''FinalizationRegistry'', ''Float32Array'', ''Float64Array'', ''Function'', ''Int8Array'',
      ''Int16Array'', ''Int32Array'', ''Map'', ''Number'', ''Object'',
      ''Promise'', ''Proxy'', ''RangeError'', ''ReferenceError'', ''RegExp'',
      ''Set'', ''String'', ''Symbol'', ''SyntaxError'', ''TypeError'',
      ''Uint8Array'', ''Uint8ClampedArray'', ''Uint16Array'', ''Uint32Array'', ''URIError'',
      ''WeakMap'', ''WeakRef'', ''WeakSet'', ''JSON'', ''Math'',
      ''Reflect'']"

text \<open>
  \<^verbatim>\<open>realmRec.GlobalEnv.GlobalThisValue\<close>, once \<^verbatim>\<open>realmRec.GlobalEnv\<close> is not the host's
  \<^verbatim>\<open>undefined\<close>: only a global environment record has the field.
\<close>

definition read_GlobalThisValue :: "heap \<Rightarrow> EnvRef \<Rightarrow> Value option" where
  "read_GlobalThisValue h env =
     (case env of
        EnvAt a \<Rightarrow>
          (case lookup h a of
             Some (GlobalEnvironmentCell g) \<Rightarrow> Some (GlobalThisValue g)
           | _ \<Rightarrow> None)
      | NotAnEnv v \<Rightarrow> None)"

datatype define_call =
  Call_DefinePropertyOrThrow "Value option" Value PropertyDescriptor "Value Completion"

text \<open>
  \<^verbatim>\<open>DefinePropertyOrThrow\<close> is not among the sources and is a parameter.  The two arrow
  functions handed to \<^verbatim>\<open>forEach\<close> come first.  In their bodies the macro \<^verbatim>\<open>Q\<close> returns
  from the arrow function, which is the function that encloses it; the body ends there
  anyway, and \<^verbatim>\<open>forEach\<close> drops what the callback returns.
\<close>

definition define_value_property ::
  "(Value option \<Rightarrow> Value \<Rightarrow> PropertyDescriptor \<Rightarrow> heap \<Rightarrow> Value Completion \<times> heap)
     \<Rightarrow> Value option \<Rightarrow> string \<times> Value \<Rightarrow> heap \<times> define_call list
     \<Rightarrow> unit returned \<times> (heap \<times> define_call list)" where
  "define_value_property DefinePropertyOrThrow global entry w =
     (case entry of (name, value) \<Rightarrow>
        (let desc = Descriptor (Some value) (BooleanValue False) (BooleanValue False)
                      (BooleanValue False)
         in Q (logged (DefinePropertyOrThrow global (NewValue name) desc)
                 (Call_DefinePropertyOrThrow global (NewValue name) desc) w)
              (\<lambda>_ w. (ReturnsNothing, w))))"

definition define_intrinsic_property ::
  "(Value option \<Rightarrow> Value \<Rightarrow> PropertyDescriptor \<Rightarrow> heap \<Rightarrow> Value Completion \<times> heap)
     \<Rightarrow> Value option \<Rightarrow> intrinsics \<Rightarrow> string \<Rightarrow> heap \<times> define_call list
     \<Rightarrow> unit returned \<times> (heap \<times> define_call list)" where
  "define_intrinsic_property DefinePropertyOrThrow global intrinsics name w =
     (let desc = Descriptor (intrinsics (''%'' @ name @ ''%'')) (BooleanValue True)
                   (BooleanValue False) (BooleanValue True)
      in Q (logged (DefinePropertyOrThrow global (NewValue name) desc)
              (Call_DefinePropertyOrThrow global (NewValue name) desc) w)
           (\<lambda>_ w. (ReturnsNothing, w)))"

text \<open>
  The function itself.  The second loop reads \<^verbatim>\<open>realmRec.Intrinsics[...]\<close> at its first
  element, before any call; the read of \<^verbatim>\<open>realmRec.GlobalEnv.GlobalThisValue\<close> comes after
  the first loop.
\<close>

definition SetDefaultGlobalBindings ::
  "(Value option \<Rightarrow> Value \<Rightarrow> PropertyDescriptor \<Rightarrow> heap \<Rightarrow> Value Completion \<times> heap)
     \<Rightarrow> Realm \<Rightarrow> heap \<times> define_call list
     \<Rightarrow> Value option returned \<times> (heap \<times> define_call list)" where
  "SetDefaultGlobalBindings DefinePropertyOrThrow realmRec w =
     (let global = GlobalObject realmRec;
          w = forEach (define_value_property DefinePropertyOrThrow global) value_properties w
      in
      case GlobalEnv realmRec of
        None \<Rightarrow> (HostTypeError, w)
      | Some env \<Rightarrow>
          (let desc = Descriptor (read_GlobalThisValue (fst w) env) (BooleanValue True)
                        (BooleanValue False) (BooleanValue True)
           in Q (logged (DefinePropertyOrThrow global (NewValue ''globalThis'') desc)
                   (Call_DefinePropertyOrThrow global (NewValue ''globalThis'') desc) w) (\<lambda>_ w.
              (case Intrinsics realmRec of
                 None \<Rightarrow> (HostTypeError, w)
               | Some intrinsics \<Rightarrow>
                   (let w = forEach (define_intrinsic_property DefinePropertyOrThrow global
                                       intrinsics)
                              intrinsic_properties w
                    in (Returns global, w))))))"

fun descriptor_of :: "define_call \<Rightarrow> PropertyDescriptor" where
  "descriptor_of (Call_DefinePropertyOrThrow O' P desc c) = desc"

fun key_of :: "define_call \<Rightarrow> Value" where
  "key_of (Call_DefinePropertyOrThrow O' P desc c) = P"


text \<open>
  Modelled from the spec: \<^verbatim>\<open>DefinePropertyOrThrow\<close> of the abstract operations, which is
  not among the sources, on an ordinary object whose properties are data properties.  The
  specification (section 1) has the engine implement the abstract operations of the
  ECMAScript standard as they are; these are the standard's OrdinaryDefineOwnProperty and
  ValidateAndApplyPropertyDescriptor: a new property needs an extensible object; a property
  that is not configurable cannot become configurable or change its enumerability, and when
  it is not writable either it cannot become writable or change its value; a refused
  definition is a TypeError.  It is used where a theorem runs on a concrete realm.
\<close>

definition complete :: "PropertyDescriptor \<Rightarrow> PropertyDescriptor" where
  "complete Desc =
     \<lparr>Value = Some (case Value Desc of None \<Rightarrow> Undefined | Some v \<Rightarrow> v),
      Get = None, Set = None,
      Writable = Some (case Writable Desc of None \<Rightarrow> BooleanValue False | Some b \<Rightarrow> b),
      Enumerable = Some (case Enumerable Desc of None \<Rightarrow> BooleanValue False | Some b \<Rightarrow> b),
      Configurable = Some (case Configurable Desc of None \<Rightarrow> BooleanValue False | Some b \<Rightarrow> b)\<rparr>"

definition merge :: "PropertyDescriptor \<Rightarrow> PropertyDescriptor \<Rightarrow> PropertyDescriptor" where
  "merge current Desc =
     \<lparr>Value = (case Value Desc of None \<Rightarrow> Value current | Some v \<Rightarrow> Some v),
      Get = None, Set = None,
      Writable = (case Writable Desc of None \<Rightarrow> Writable current | Some b \<Rightarrow> Some b),
      Enumerable = (case Enumerable Desc of None \<Rightarrow> Enumerable current | Some b \<Rightarrow> Some b),
      Configurable = (case Configurable Desc of None \<Rightarrow> Configurable current | Some b \<Rightarrow> Some b)\<rparr>"

definition update_property :: "Value \<Rightarrow> PropertyDescriptor \<Rightarrow> Object \<Rightarrow> Object" where
  "update_property P d obj =
     obj\<lparr>properties := map (\<lambda>(k, c). if k = P then (k, d) else (k, c)) (properties obj)\<rparr>"

definition ValidateAndApplyPropertyDescriptor ::
  "Object \<Rightarrow> Value \<Rightarrow> PropertyDescriptor \<Rightarrow> bool \<times> Object" where
  "ValidateAndApplyPropertyDescriptor obj P Desc =
     (case map_of (properties obj) P of
        None \<Rightarrow>
          if InternalSlots obj ''Extensible'' = Some (BooleanValue True)
          then (True, obj\<lparr>properties := properties obj @ [(P, complete Desc)]\<rparr>)
          else (False, obj)
      | Some current \<Rightarrow>
          if Configurable current = Some (BooleanValue False)
             \<and> (Configurable Desc = Some (BooleanValue True)
                \<or> (Enumerable Desc \<noteq> None \<and> Enumerable Desc \<noteq> Enumerable current))
          then (False, obj)
          else if Configurable current = Some (BooleanValue False)
                  \<and> Writable current = Some (BooleanValue False)
          then (if Writable Desc = Some (BooleanValue True)
                   \<or> (Value Desc \<noteq> None \<and> Value Desc \<noteq> Value current)
                then (False, obj)
                else (True, obj))
          else (True, update_property P (merge current Desc) obj))"

definition ordinary_DefinePropertyOrThrow ::
  "Value option \<Rightarrow> Value \<Rightarrow> PropertyDescriptor \<Rightarrow> heap \<Rightarrow> Value Completion \<times> heap" where
  "ordinary_DefinePropertyOrThrow O' P desc h =
     (case O' of
        Some (ObjectValue a) \<Rightarrow>
          (case lookup h a of
             Some (ObjectCell obj) \<Rightarrow>
               (case ValidateAndApplyPropertyDescriptor obj P desc of
                  (True, obj) \<Rightarrow> (NormalCompletion (BooleanValue True), h[a := ObjectCell obj])
                | (False, obj) \<Rightarrow> (Abrupt TypeError, h))
           | _ \<Rightarrow> (Abrupt TypeError, h))
      | _ \<Rightarrow> (Abrupt TypeError, h))"


section \<open>Concrete realms\<close>

text \<open>Bootstrap routines that create nothing, for running \<^verbatim>\<open>CreateRealm\<close> as it stands.\<close>

definition idle_bootstrap :: "string \<Rightarrow> intrinsics \<times> heap \<Rightarrow> intrinsics \<times> heap" where
  "idle_bootstrap routine ih = ih"

definition idle_AddRestrictedFunctionProperties ::
  "Value option \<Rightarrow> intrinsics \<times> heap \<Rightarrow> intrinsics \<times> heap" where
  "idle_AddRestrictedFunctionProperties F ih = ih"

text \<open>
  A realm whose global object the host supplied: an extensible ordinary object that already
  has an own property \<^verbatim>\<open>NaN\<close>, not writable and not configurable, with the value 0.
\<close>

definition host_heap :: heap where
  "host_heap =
     [ObjectCell
        \<lparr>InternalSlots = [''Prototype'' \<mapsto> Null, ''Extensible'' \<mapsto> BooleanValue True],
         properties =
           [(StringValue ''NaN'',
             \<lparr>Value = Some (NumberValue (Finite 0)), Get = None, Set = None,
              Writable = Some (BooleanValue False), Enumerable = Some (BooleanValue False),
              Configurable = Some (BooleanValue False)\<rparr>)]\<rparr>,
      ObjectEnvironmentCell
        \<lparr>OuterEnv = NotAnEnv Null, BindingObject = ObjectValue 0,
         IsWithEnvironment = BooleanValue False\<rparr>,
      DeclarativeEnvironmentCell \<lparr>OuterEnv = NotAnEnv Null, bindings = []\<rparr>,
      GlobalEnvironmentCell
        \<lparr>OuterEnv = NotAnEnv Null, ObjectRecord = EnvAt 1, GlobalThisValue = ObjectValue 0,
         DeclarativeRecord = EnvAt 2, VarNames = []\<rparr>]"

definition host_realm :: Realm where
  "host_realm =
     \<lparr>Intrinsics = Some Map.empty, GlobalObject = Some (ObjectValue 0),
      GlobalEnv = Some (EnvAt 3), TemplateMap = Some [], HostDefined = None,
      randomState = None\<rparr>"


text \<open>
  For the definitions that were not refused.  A call is accepted when it returned a normal
  completion; a descriptor is populated when it is a data descriptor with all four fields.
  \<open>define_contract D g\<close> is what the ECMAScript standard promises of an accepted
  definition on the object \<open>g\<close>: the property is then the populated descriptor that was
  passed, and the other properties of \<open>g\<close> are as before.  \<open>installed g (h, calls)\<close>:
  if every call was accepted, each populated descriptor passed is the property of \<open>g\<close>
  under its key in \<open>h\<close>.
\<close>

fun accepted :: "define_call \<Rightarrow> bool" where
  "accepted (Call_DefinePropertyOrThrow O' P desc (NormalCompletion v)) = True"
| "accepted (Call_DefinePropertyOrThrow O' P desc (Abrupt c)) = False"

fun entry_of :: "define_call \<Rightarrow> Value \<times> PropertyDescriptor" where
  "entry_of (Call_DefinePropertyOrThrow O' P desc c) = (P, desc)"

definition populated :: "PropertyDescriptor \<Rightarrow> bool" where
  "populated d \<longleftrightarrow>
     Value d \<noteq> None \<and> Get d = None \<and> Set d = None
     \<and> Writable d \<noteq> None \<and> Enumerable d \<noteq> None \<and> Configurable d \<noteq> None"

definition define_contract ::
  "(Value option \<Rightarrow> Value \<Rightarrow> PropertyDescriptor \<Rightarrow> heap \<Rightarrow> Value Completion \<times> heap)
     \<Rightarrow> Value option \<Rightarrow> bool" where
  "define_contract D g \<longleftrightarrow>
     (\<forall>P d h v h'. D g P d h = (NormalCompletion v, h') \<longrightarrow>
        (populated d \<longrightarrow> own_property h' g P = Some d)
        \<and> (\<forall>P'. P' \<noteq> P \<longrightarrow> own_property h' g P' = own_property h g P'))"

definition installed :: "Value option \<Rightarrow> heap \<times> define_call list \<Rightarrow> bool" where
  "installed g w \<longleftrightarrow>
     (list_all accepted (snd w) \<longrightarrow>
        (\<forall>c \<in> set (snd w). populated (descriptor_of c) \<longrightarrow>
            own_property (fst w) g (key_of c) = Some (descriptor_of c)))"

text \<open>
  An object that refuses no definition (every property configurable, the object
  extensible): the definition replaces the property or adds it at the end.
\<close>

definition accepting_DefinePropertyOrThrow ::
  "Value option \<Rightarrow> Value \<Rightarrow> PropertyDescriptor \<Rightarrow> heap \<Rightarrow> Value Completion \<times> heap" where
  "accepting_DefinePropertyOrThrow O' P desc h =
     (case O' of
        Some (ObjectValue a) \<Rightarrow>
          (case lookup h a of
             Some (ObjectCell obj) \<Rightarrow>
               (NormalCompletion (BooleanValue True),
                h[a := ObjectCell (obj\<lparr>properties := AList.update P desc (properties obj)\<rparr>)])
           | _ \<Rightarrow> (Abrupt TypeError, h))
      | _ \<Rightarrow> (Abrupt TypeError, h))"

text \<open>
  In a record of calls, a sub-step that returned an abrupt completion can only be the last
  call.
\<close>

fun abrupt_ends :: "('n, 'r) call list \<Rightarrow> bool" where
  "abrupt_ends [] = True"
| "abrupt_ends [c] = True"
| "abrupt_ends (c # cs) = (substep_abrupt c = None \<and> abrupt_ends cs)"

definition propagated :: "Value returned \<times> ('s \<times> ('n, 'r) call list) \<Rightarrow> bool" where
  "propagated res \<longleftrightarrow>
     (case res of (r, (s, calls)) \<Rightarrow>
        abrupt_ends calls \<and>
        (\<forall>a. calls \<noteq> [] \<and> substep_abrupt (last calls) = Some a \<longrightarrow>
             r = ReturnsAbrupt a
             \<and> filter (\<lambda>c. is_PutValue c \<or> is_SetFunctionName c) calls = []))"






section \<open>Rejection tracking: proofs\<close>

lemma session_promises_snoc:
  "session_promises (calls @ [(p, operation)]) =
     promiseRejectionTracker (session_promises calls) p operation"
  by (simp add: session_promises_def)

lemma rejected_unhandled_Nil: "\<not> rejected_unhandled [] p"
  by (simp add: rejected_unhandled_def)

lemma rejected_unhandled_snoc:
  "rejected_unhandled (calls @ [(q, operation)]) p \<longleftrightarrow>
     (p = q \<and> operation = ''reject'') \<or>
     (rejected_unhandled calls p \<and> \<not> (p = q \<and> operation = ''handle''))"
proof
  assume "rejected_unhandled (calls @ [(q, operation)]) p"
  then obtain xs ys where
    eq: "calls @ [(q, operation)] = xs @ (p, ''reject'') # ys" and
    nh: "(p, ''handle'') \<notin> set ys"
    by (auto simp: rejected_unhandled_def)
  show "(p = q \<and> operation = ''reject'') \<or>
     (rejected_unhandled calls p \<and> \<not> (p = q \<and> operation = ''handle''))"
  proof (cases ys rule: rev_cases)
    case Nil
    with eq show ?thesis by simp
  next
    case (snoc zs z)
    with eq have c: "calls = xs @ (p, ''reject'') # zs" and z: "z = (q, operation)"
      by simp_all
    from nh snoc have "(p, ''handle'') \<notin> set zs" and "z \<noteq> (p, ''handle'')"
      by auto
    with c z show ?thesis
      by (auto simp: rejected_unhandled_def)
  qed
next
  assume "(p = q \<and> operation = ''reject'') \<or>
     (rejected_unhandled calls p \<and> \<not> (p = q \<and> operation = ''handle''))"
  then show "rejected_unhandled (calls @ [(q, operation)]) p"
  proof
    assume "p = q \<and> operation = ''reject''"
    then have "calls @ [(q, operation)] = calls @ (p, ''reject'') # []" by simp
    then show ?thesis
      unfolding rejected_unhandled_def by (intro exI [of _ calls] exI [of _ "[]"]) simp
  next
    assume a: "rejected_unhandled calls p \<and> \<not> (p = q \<and> operation = ''handle'')"
    then obtain xs ys where c: "calls = xs @ (p, ''reject'') # ys"
      and nh: "(p, ''handle'') \<notin> set ys"
      by (auto simp: rejected_unhandled_def)
    from a nh have "(p, ''handle'') \<notin> set (ys @ [(q, operation)])" by auto
    moreover from c have "calls @ [(q, operation)] = xs @ (p, ''reject'') # (ys @ [(q, operation)])"
      by simp
    ultimately show ?thesis
      unfolding rejected_unhandled_def by blast
  qed
qed

lemma set_session_promises:
  "set (session_promises calls) = {p. rejected_unhandled calls p}"
proof (induction calls rule: rev_induct)
  case Nil
  show ?case by (simp add: session_promises_def rejected_unhandled_Nil)
next
  case (snoc c calls)
  obtain q operation where c: "c = (q, operation)" by (cases c)
  show ?case
    unfolding c session_promises_snoc
    using snoc.IH
    by (auto simp: rejected_unhandled_snoc promiseRejectionTracker_def Set_add_def Set_delete_def)
qed

lemma distinct_session_promises: "distinct (session_promises calls)"
proof (induction calls rule: rev_induct)
  case Nil
  show ?case by (simp add: session_promises_def)
next
  case (snoc c calls)
  obtain q operation where c: "c = (q, operation)" by (cases c)
  show ?case
    unfolding c session_promises_snoc
    using snoc.IH
    by (simp add: promiseRejectionTracker_def Set_add_def Set_delete_def distinct_removeAll)
qed

text \<open>
  C9.  At the end of a session the set of tracked promises holds exactly the promises with
  a \<^verbatim>\<open>'reject'\<close> call that no later \<^verbatim>\<open>'handle'\<close> call for the same promise follows; the
  set has no repetition and the loop posts one \<^verbatim>\<open>unhandledRejection\<close> message for each member
  and nothing else; an operation other than \<^verbatim>\<open>'reject'\<close> and \<^verbatim>\<open>'handle'\<close> leaves the set as
  it is.
\<close>

theorem tracked_rejections_invariant:
  "set (session_promises calls) = {p. rejected_unhandled calls p}
   \<and> distinct (session_promises calls)
   \<and> report_unhandled inspect result_of (session_promises calls) =
       map (\<lambda>p. UnhandledRejection (inspect (result_of p))) (session_promises calls)
   \<and> (\<forall>promises p operation. operation \<noteq> ''reject'' \<and> operation \<noteq> ''handle'' \<longrightarrow>
         promiseRejectionTracker promises p operation = promises)"
  by (simp add: set_session_promises distinct_session_promises report_unhandled_def
      promiseRejectionTracker_def)

theorem tracked_rejections_invariant_witness:
  "session_promises [(1::nat, ''reject''), (2, ''reject''), (1, ''handle''), (3, ''resolve'')] = [2]
   \<and> set (session_promises [(1::nat, ''reject''), (2, ''reject''), (1, ''handle''), (3, ''resolve'')]) =
       {p. rejected_unhandled [(1, ''reject''), (2, ''reject''), (1, ''handle''), (3, ''resolve'')] p}
   \<and> ''resolve'' \<noteq> ''reject'' \<and> ''resolve'' \<noteq> ''handle''
   \<and> promiseRejectionTracker [2::nat] 3 ''resolve'' = [2]"
  using tracked_rejections_invariant
    [of "[(1::nat, ''reject''), (2, ''reject''), (1, ''handle''), (3, ''resolve'')]"
        "\<lambda>v. v" "\<lambda>p. Undefined"]
  by (simp add: session_promises_def promiseRejectionTracker_def Set_add_def Set_delete_def)

section \<open>Assignment expressions: proofs\<close>

lemma logged_apply:
  "f s = (a, s') \<Longrightarrow> logged f ev (s, calls) = (a, (s', calls @ [ev a]))"
  by (simp add: logged_def)

lemma Q_Normal: "Q (NormalCompletion v, w) k = k v w"
  by (simp add: Q_def)

lemma Q_Abrupt: "Q (Abrupt c, w) k = (ReturnsAbrupt c, w)"
  by (simp add: Q_def)

text \<open>
  C1.  For a compound assignment \<open>target op= source\<close> the only expressions evaluated are
  the target, once and first, and then the source; when every step completes normally the
  calls are: evaluate the target to \<open>lref\<close>, \<open>GetValue lref\<close>, evaluate the source,
  \<open>GetValue\<close> of it, the binary operator \<open>op\<close> (the token without its last character
  \<open>=\<close>) on the two values, \<open>PutValue\<close> of the result \<open>r\<close> into the same \<open>lref\<close>; the
  function returns \<open>r\<close>.
\<close>

theorem compound_assignment_evaluation:
  assumes "operator node = op @ ''=''" and "op \<noteq> []"
  shows "prefix (evaluated (snd (snd (Evaluate_AssignmentExpression E node (s, [])))))
           [left node, right node]
       \<and> (Evaluate_Expression E (left node) s = (NormalCompletion lref, s1)
          \<and> GetValue E lref s1 = (NormalCompletion lval, s2)
          \<and> Evaluate_Expression E (right node) s2 = (NormalCompletion rref, s3)
          \<and> GetValue E rref s3 = (NormalCompletion rval, s4)
          \<and> EvaluateBinopValues E op lval rval s4 = (NormalCompletion r, s5)
          \<and> PutValue E lref r s5 = (NormalCompletion u, s6)
          \<longrightarrow> Evaluate_AssignmentExpression E node (s, []) =
               (Returns r, (s6,
                 [Call_Evaluate_Expression (left node) (NormalCompletion lref),
                  Call_GetValue lref (NormalCompletion lval),
                  Call_Evaluate_Expression (right node) (NormalCompletion rref),
                  Call_GetValue rref (NormalCompletion rval),
                  Call_EvaluateBinopValues op lval rval (NormalCompletion r),
                  Call_PutValue lref r (NormalCompletion u)])))"
proof -
  from assms have ne: "operator node \<noteq> ''=''" by (cases op) auto
  from assms have bl: "butlast (operator node) = op" by simp
  have once: "prefix (evaluated (snd (snd (Evaluate_AssignmentExpression E node (s, [])))))
           [left node, right node]"
    using ne
    by (auto simp: Evaluate_AssignmentExpression_def Let_def Q_def logged_def
             split: prod.splits Completion.splits)
  have run: "Evaluate_AssignmentExpression E node (s, []) =
               (Returns r, (s6,
                 [Call_Evaluate_Expression (left node) (NormalCompletion lref),
                  Call_GetValue lref (NormalCompletion lval),
                  Call_Evaluate_Expression (right node) (NormalCompletion rref),
                  Call_GetValue rref (NormalCompletion rval),
                  Call_EvaluateBinopValues op lval rval (NormalCompletion r),
                  Call_PutValue lref r (NormalCompletion u)]))"
    if "Evaluate_Expression E (left node) s = (NormalCompletion lref, s1)"
       "GetValue E lref s1 = (NormalCompletion lval, s2)"
       "Evaluate_Expression E (right node) s2 = (NormalCompletion rref, s3)"
       "GetValue E rref s3 = (NormalCompletion rval, s4)"
       "EvaluateBinopValues E op lval rval s4 = (NormalCompletion r, s5)"
       "PutValue E lref r s5 = (NormalCompletion u, s6)"
    using that ne bl
    by (simp add: Evaluate_AssignmentExpression_def Let_def logged_apply Q_Normal)
  from once run show ?thesis by blast
qed

theorem compound_assignment_evaluation_witness:
  "operator \<lparr>operator = ''+='', left = Identifier ''x'', right = NumericLiteral 3\<rparr> = ''+'' @ ''=''
   \<and> ''+'' \<noteq> []
   \<and> prefix (evaluated (snd (snd (Evaluate_AssignmentExpression machine_engine
         \<lparr>operator = ''+='', left = Identifier ''x'', right = NumericLiteral 3\<rparr> (machine0, [])))))
       [Identifier ''x'', NumericLiteral 3]
   \<and> fst (Evaluate_AssignmentExpression machine_engine
         \<lparr>operator = ''+='', left = Identifier ''x'', right = NumericLiteral 3\<rparr> (machine0, [])) =
       Returns (NumberValue (Finite 8))
   \<and> variables (fst (snd (Evaluate_AssignmentExpression machine_engine
         \<lparr>operator = ''+='', left = Identifier ''x'', right = NumericLiteral 3\<rparr> (machine0, []))))
       ''x'' = Some (NumberValue (Finite 8))"
  using compound_assignment_evaluation
    [where node = "\<lparr>operator = ''+='', left = Identifier ''x'', right = NumericLiteral 3\<rparr>"
       and op = "''+''" and E = machine_engine and s = machine0
       and lref = "Reference ''x''" and ?s1.0 = machine0
       and lval = "NumberValue (Finite 5)" and ?s2.0 = machine0
       and rref = "Plain (NumberValue (Finite 3))" and ?s3.0 = machine0
       and rval = "NumberValue (Finite 3)" and ?s4.0 = machine0
       and r = "NumberValue (Finite 8)" and ?s5.0 = machine0
       and u = Undefined
       and ?s6.0 = "machine0\<lparr>variables := (variables machine0)(''x'' \<mapsto> NumberValue (Finite 8))\<rparr>"]
  by (simp add: machine_engine_def machine0_def)

text \<open>
  C2.  For a plain \<open>=\<close> whose target is an identifier reference and whose source is an
  anonymous function or class definition: when the value has no own \<open>name\<close> property,
  \<open>SetFunctionName\<close> is called on the value with the referenced name of the target
  reference, after \<open>HasOwnProperty\<close> and before \<open>PutValue\<close>, which runs on the state
  \<open>SetFunctionName\<close> left; when the value has an own \<open>name\<close> property,
  \<open>SetFunctionName\<close> is not called and \<open>PutValue\<close> runs on the state as it was.
\<close>

theorem anonymous_function_name_inference:
  assumes "operator node = ''=''"
    and "IsIdentifierRef E (left node)"
    and "\<not> isObjectLiteral E (left node)" and "\<not> isArrayLiteral E (left node)"
    and "IsAnonymousFunctionDefinition E (right node)"
    and "Evaluate_Expression E (left node) s = (NormalCompletion lref, s1)"
    and "Evaluate_Expression E (right node) s1 = (NormalCompletion rref, s2)"
    and "GetValue E rref s2 = (NormalCompletion rval, s3)"
    and "HasOwnProperty E rval (StringValue ''name'') s3 = (NormalCompletion hasNameProperty, s4)"
  shows "(hasNameProperty = BooleanValue False
            \<and> SetFunctionName E rval (GetReferencedName E lref) s4 = (named, s5)
            \<and> PutValue E lref rval s5 = (NormalCompletion u, s6)
          \<longrightarrow> Evaluate_AssignmentExpression E node (s, []) =
               (Returns rval, (s6,
                 [Call_Evaluate_Expression (left node) (NormalCompletion lref),
                  Call_Evaluate_Expression (right node) (NormalCompletion rref),
                  Call_GetValue rref (NormalCompletion rval),
                  Call_HasOwnProperty rval (StringValue ''name'') (NormalCompletion hasNameProperty),
                  Call_SetFunctionName rval (GetReferencedName E lref) named,
                  Call_PutValue lref rval (NormalCompletion u)])))
       \<and> (hasNameProperty \<noteq> BooleanValue False
            \<and> PutValue E lref rval s4 = (NormalCompletion u, s6)
          \<longrightarrow> Evaluate_AssignmentExpression E node (s, []) =
               (Returns rval, (s6,
                 [Call_Evaluate_Expression (left node) (NormalCompletion lref),
                  Call_Evaluate_Expression (right node) (NormalCompletion rref),
                  Call_GetValue rref (NormalCompletion rval),
                  Call_HasOwnProperty rval (StringValue ''name'') (NormalCompletion hasNameProperty),
                  Call_PutValue lref rval (NormalCompletion u)])))"
  using assms
  by (simp add: Evaluate_AssignmentExpression_def Let_def logged_apply Q_Normal NewValue_def
        isFalse_def)

theorem anonymous_function_name_inference_witness:
  "IsIdentifierRef machine_engine (Identifier ''f'')
   \<and> IsAnonymousFunctionDefinition machine_engine (FunctionExpression None)
   \<and> machine_HasOwnProperty (ObjectValue 0) (StringValue ''name'') (machine0\<lparr>objects := 1\<rparr>) =
       (NormalCompletion (BooleanValue False), machine0\<lparr>objects := 1\<rparr>)
   \<and> fst (Evaluate_AssignmentExpression machine_engine
         \<lparr>operator = ''='', left = Identifier ''f'', right = FunctionExpression None\<rparr>
         (machine0, [])) = Returns (ObjectValue 0)
   \<and> names (fst (snd (Evaluate_AssignmentExpression machine_engine
         \<lparr>operator = ''='', left = Identifier ''f'', right = FunctionExpression None\<rparr>
         (machine0, [])))) 0 = Some (StringValue ''f'')
   \<and> filter is_SetFunctionName (snd (snd (Evaluate_AssignmentExpression machine_engine
         \<lparr>operator = ''='', left = Identifier ''f'', right = FunctionExpression None\<rparr>
         (machine0, [])))) =
       [Call_SetFunctionName (ObjectValue 0) (StringValue ''f'') (NormalCompletion (BooleanValue True))]
   \<and> IsAnonymousFunctionDefinition machine_engine (ClassExpression None True)
   \<and> names (fst (snd (Evaluate_AssignmentExpression machine_engine
         \<lparr>operator = ''='', left = Identifier ''f'', right = ClassExpression None True\<rparr>
         (machine0, [])))) 0 = Some (ObjectValue 1)
   \<and> filter is_SetFunctionName (snd (snd (Evaluate_AssignmentExpression machine_engine
         \<lparr>operator = ''='', left = Identifier ''f'', right = ClassExpression None True\<rparr>
         (machine0, [])))) = []"
  using anonymous_function_name_inference
    [where node = "\<lparr>operator = ''='', left = Identifier ''f'', right = FunctionExpression None\<rparr>"
       and E = machine_engine and s = machine0
       and lref = "Reference ''f''" and ?s1.0 = machine0
       and rref = "Plain (ObjectValue 0)" and ?s2.0 = "machine0\<lparr>objects := 1\<rparr>"
       and rval = "ObjectValue 0" and ?s3.0 = "machine0\<lparr>objects := 1\<rparr>"
       and hasNameProperty = "BooleanValue False" and ?s4.0 = "machine0\<lparr>objects := 1\<rparr>"
       and named = "NormalCompletion (BooleanValue True)"
       and ?s5.0 = "machine0\<lparr>objects := 1, names := [0 \<mapsto> StringValue ''f'']\<rparr>"
       and u = Undefined
       and ?s6.0 = "machine0\<lparr>objects := 1, names := [0 \<mapsto> StringValue ''f''],
                     variables := (variables machine0)(''f'' \<mapsto> ObjectValue 0)\<rparr>"]
    anonymous_function_name_inference
    [where node = "\<lparr>operator = ''='', left = Identifier ''f'', right = ClassExpression None True\<rparr>"
       and E = machine_engine and s = machine0
       and lref = "Reference ''f''" and ?s1.0 = machine0
       and rref = "Plain (ObjectValue 0)"
       and ?s2.0 = "machine0\<lparr>objects := 2, names := [0 \<mapsto> ObjectValue 1]\<rparr>"
       and rval = "ObjectValue 0"
       and ?s3.0 = "machine0\<lparr>objects := 2, names := [0 \<mapsto> ObjectValue 1]\<rparr>"
       and hasNameProperty = "BooleanValue True"
       and ?s4.0 = "machine0\<lparr>objects := 2, names := [0 \<mapsto> ObjectValue 1]\<rparr>"
       and u = Undefined
       and ?s6.0 = "machine0\<lparr>objects := 2, names := [0 \<mapsto> ObjectValue 1],
                     variables := (variables machine0)(''f'' \<mapsto> ObjectValue 0)\<rparr>"]
  by (simp add: machine_engine_def machine0_def)

lemma abrupt_ends_Cons:
  "cs \<noteq> [] \<Longrightarrow> abrupt_ends (c # cs) = (substep_abrupt c = None \<and> abrupt_ends cs)"
  by (cases cs) simp_all

lemma abrupt_ends_split:
  "abrupt_ends (pre @ c # post) \<Longrightarrow> substep_abrupt c = Some a \<Longrightarrow> post = []"
proof (induction pre)
  case Nil
  then show ?case by (cases post) simp_all
next
  case (Cons x pre)
  then show ?case by (simp add: abrupt_ends_Cons)
qed

lemma propagated_Evaluate_AssignmentExpression:
  "propagated (Evaluate_AssignmentExpression E node (s, []))"
  unfolding Evaluate_AssignmentExpression_def Let_def Q_def logged_def
  by (simp add: propagated_def split: prod.splits Completion.splits)

lemma abrupt_call_is_last:
  "snd (snd (Evaluate_AssignmentExpression E node (s, []))) = pre @ c # post
      \<and> substep_abrupt c = Some a
   \<longrightarrow> fst (Evaluate_AssignmentExpression E node (s, [])) = ReturnsAbrupt a
       \<and> post = []
       \<and> filter (\<lambda>c. is_PutValue c \<or> is_SetFunctionName c)
            (snd (snd (Evaluate_AssignmentExpression E node (s, [])))) = []"
proof (intro impI, elim conjE)
  obtain r s' calls where res: "Evaluate_AssignmentExpression E node (s, []) = (r, (s', calls))"
    by (metis prod.collapse)
  assume eq: "snd (snd (Evaluate_AssignmentExpression E node (s, []))) = pre @ c # post"
    and ab: "substep_abrupt c = Some a"
  from eq res have calls: "calls = pre @ c # post" by simp
  from propagated_Evaluate_AssignmentExpression [of E node s] res
  have e: "abrupt_ends calls"
    and l: "\<And>a. calls \<noteq> [] \<Longrightarrow> substep_abrupt (last calls) = Some a \<Longrightarrow>
             r = ReturnsAbrupt a \<and> filter (\<lambda>c. is_PutValue c \<or> is_SetFunctionName c) calls = []"
    by (simp_all add: propagated_def)
  from e calls ab have post: "post = []" using abrupt_ends_split by blast
  with calls have "last calls = c" and "calls \<noteq> []" by simp_all
  with l [of a] ab
  have "r = ReturnsAbrupt a \<and> filter (\<lambda>c. is_PutValue c \<or> is_SetFunctionName c) calls = []"
    by simp
  with post res
  show "fst (Evaluate_AssignmentExpression E node (s, [])) = ReturnsAbrupt a
          \<and> post = []
          \<and> filter (\<lambda>c. is_PutValue c \<or> is_SetFunctionName c)
               (snd (snd (Evaluate_AssignmentExpression E node (s, [])))) = []"
    by simp
qed

text \<open>
  C3.  If a sub-step before the write (evaluating the target or the source, \<open>GetValue\<close>
  on either, the binary operator, \<open>HasOwnProperty\<close>) gives an abrupt completion, the
  function returns that completion, and the state it ends in is the state that sub-step
  left: nothing runs after it, on the engine or in the record of calls, and neither
  \<open>PutValue\<close> nor \<open>SetFunctionName\<close> has been called.  The first part says it of
  the record of calls on every path; the other two say it sub-step by sub-step, for the
  compound operators and for the plain \<open>=\<close> whose target is not a literal.
\<close>

theorem abrupt_substep_propagates:
  "(snd (snd (Evaluate_AssignmentExpression E node (s, []))) = pre @ c # post
      \<and> substep_abrupt c = Some a
    \<longrightarrow> fst (Evaluate_AssignmentExpression E node (s, [])) = ReturnsAbrupt a
        \<and> post = []
        \<and> filter (\<lambda>c. is_PutValue c \<or> is_SetFunctionName c)
             (snd (snd (Evaluate_AssignmentExpression E node (s, [])))) = [])
   \<and> (operator node \<noteq> ''='' \<longrightarrow>
    (Evaluate_Expression E (left node) s = (Abrupt a, s1)
           \<longrightarrow> Evaluate_AssignmentExpression E node (s, []) =
                 (ReturnsAbrupt a, (s1, [Call_Evaluate_Expression (left node) (Abrupt a)])))
        \<and> (Evaluate_Expression E (left node) s = (NormalCompletion lref, s1)
            \<and> GetValue E lref s1 = (Abrupt a, s2)
           \<longrightarrow> Evaluate_AssignmentExpression E node (s, []) =
                 (ReturnsAbrupt a,
                  (s2, [Call_Evaluate_Expression (left node) (NormalCompletion lref),
                        Call_GetValue lref (Abrupt a)])))
        \<and> (Evaluate_Expression E (left node) s = (NormalCompletion lref, s1)
            \<and> GetValue E lref s1 = (NormalCompletion lval, s2)
            \<and> Evaluate_Expression E (right node) s2 = (Abrupt a, s3)
           \<longrightarrow> Evaluate_AssignmentExpression E node (s, []) =
                 (ReturnsAbrupt a,
                  (s3, [Call_Evaluate_Expression (left node) (NormalCompletion lref),
                        Call_GetValue lref (NormalCompletion lval),
                        Call_Evaluate_Expression (right node) (Abrupt a)])))
        \<and> (Evaluate_Expression E (left node) s = (NormalCompletion lref, s1)
            \<and> GetValue E lref s1 = (NormalCompletion lval, s2)
            \<and> Evaluate_Expression E (right node) s2 = (NormalCompletion rref, s3)
            \<and> GetValue E rref s3 = (Abrupt a, s4)
           \<longrightarrow> Evaluate_AssignmentExpression E node (s, []) =
                 (ReturnsAbrupt a,
                  (s4, [Call_Evaluate_Expression (left node) (NormalCompletion lref),
                        Call_GetValue lref (NormalCompletion lval),
                        Call_Evaluate_Expression (right node) (NormalCompletion rref),
                        Call_GetValue rref (Abrupt a)])))
        \<and> (Evaluate_Expression E (left node) s = (NormalCompletion lref, s1)
            \<and> GetValue E lref s1 = (NormalCompletion lval, s2)
            \<and> Evaluate_Expression E (right node) s2 = (NormalCompletion rref, s3)
            \<and> GetValue E rref s3 = (NormalCompletion rval, s4)
            \<and> EvaluateBinopValues E (butlast (operator node)) lval rval s4 = (Abrupt a, s5)
           \<longrightarrow> Evaluate_AssignmentExpression E node (s, []) =
                 (ReturnsAbrupt a,
                  (s5, [Call_Evaluate_Expression (left node) (NormalCompletion lref),
                        Call_GetValue lref (NormalCompletion lval),
                        Call_Evaluate_Expression (right node) (NormalCompletion rref),
                        Call_GetValue rref (NormalCompletion rval),
                        Call_EvaluateBinopValues (butlast (operator node)) lval rval (Abrupt a)]))))
   \<and> (operator node = ''=''
       \<and> \<not> isObjectLiteral E (left node) \<and> \<not> isArrayLiteral E (left node) \<longrightarrow>
    (Evaluate_Expression E (left node) s = (Abrupt a, s1)
           \<longrightarrow> Evaluate_AssignmentExpression E node (s, []) =
                 (ReturnsAbrupt a, (s1, [Call_Evaluate_Expression (left node) (Abrupt a)])))
        \<and> (Evaluate_Expression E (left node) s = (NormalCompletion lref, s1)
            \<and> Evaluate_Expression E (right node) s1 = (Abrupt a, s2)
           \<longrightarrow> Evaluate_AssignmentExpression E node (s, []) =
                 (ReturnsAbrupt a,
                  (s2, [Call_Evaluate_Expression (left node) (NormalCompletion lref),
                        Call_Evaluate_Expression (right node) (Abrupt a)])))
        \<and> (Evaluate_Expression E (left node) s = (NormalCompletion lref, s1)
            \<and> Evaluate_Expression E (right node) s1 = (NormalCompletion rref, s2)
            \<and> GetValue E rref s2 = (Abrupt a, s3)
           \<longrightarrow> Evaluate_AssignmentExpression E node (s, []) =
                 (ReturnsAbrupt a,
                  (s3, [Call_Evaluate_Expression (left node) (NormalCompletion lref),
                        Call_Evaluate_Expression (right node) (NormalCompletion rref),
                        Call_GetValue rref (Abrupt a)])))
        \<and> (Evaluate_Expression E (left node) s = (NormalCompletion lref, s1)
            \<and> Evaluate_Expression E (right node) s1 = (NormalCompletion rref, s2)
            \<and> GetValue E rref s2 = (NormalCompletion rval, s3)
            \<and> IsAnonymousFunctionDefinition E (right node) \<and> IsIdentifierRef E (left node)
            \<and> HasOwnProperty E rval (StringValue ''name'') s3 = (Abrupt a, s4)
           \<longrightarrow> Evaluate_AssignmentExpression E node (s, []) =
                 (ReturnsAbrupt a,
                  (s4, [Call_Evaluate_Expression (left node) (NormalCompletion lref),
                        Call_Evaluate_Expression (right node) (NormalCompletion rref),
                        Call_GetValue rref (NormalCompletion rval),
                        Call_HasOwnProperty rval (StringValue ''name'') (Abrupt a)]))))"
  (is "?last \<and> ?compound \<and> ?plain")
proof -
  have l: ?last
    by (rule abrupt_call_is_last)
  have c: ?compound
    by (simp add: Evaluate_AssignmentExpression_def Let_def logged_apply Q_Normal Q_Abrupt)
  have p: ?plain
    by (simp add: Evaluate_AssignmentExpression_def Let_def logged_apply Q_Normal Q_Abrupt
          NewValue_def)
  from l c p show ?thesis by (intro conjI)
qed

theorem abrupt_substep_propagates_witness:
  "operator \<lparr>operator = ''+='', left = Identifier ''y'', right = NumericLiteral 1\<rparr> \<noteq> ''=''
   \<and> Evaluate_Expression machine_engine (Identifier ''y'') machine0 =
       (NormalCompletion (Reference ''y''), machine0)
   \<and> GetValue machine_engine (Reference ''y'') machine0 = (Abrupt ReferenceError, machine0)
   \<and> substep_abrupt (Call_GetValue (Reference ''y'') (Abrupt ReferenceError)
         :: (expr, reference) call) = Some ReferenceError
   \<and> Evaluate_AssignmentExpression machine_engine
       \<lparr>operator = ''+='', left = Identifier ''y'', right = NumericLiteral 1\<rparr> (machine0, []) =
     (ReturnsAbrupt ReferenceError,
      (machine0,
       [Call_Evaluate_Expression (Identifier ''y'') (NormalCompletion (Reference ''y'')),
        Call_GetValue (Reference ''y'') (Abrupt ReferenceError)]))
   \<and> \<not> isObjectLiteral machine_engine (Identifier ''x'')
   \<and> \<not> isArrayLiteral machine_engine (Identifier ''x'')
   \<and> Evaluate_AssignmentExpression machine_engine
       \<lparr>operator = ''='', left = Identifier ''x'', right = Identifier ''y''\<rparr> (machine0, []) =
     (ReturnsAbrupt ReferenceError,
      (machine0,
       [Call_Evaluate_Expression (Identifier ''x'') (NormalCompletion (Reference ''x'')),
        Call_Evaluate_Expression (Identifier ''y'') (NormalCompletion (Reference ''y'')),
        Call_GetValue (Reference ''y'') (Abrupt ReferenceError)]))
   \<and> variables machine0 ''x'' = Some (NumberValue (Finite 5))"
  using abrupt_substep_propagates
    [where E = machine_engine
       and node = "\<lparr>operator = ''+='', left = Identifier ''y'', right = NumericLiteral 1\<rparr>"
       and s = machine0
       and pre = "[Call_Evaluate_Expression (Identifier ''y'') (NormalCompletion (Reference ''y''))]"
       and c = "Call_GetValue (Reference ''y'') (Abrupt ReferenceError)"
       and post = "[]" and a = ReferenceError
       and lref = "Reference ''y''" and ?s1.0 = machine0 and ?s2.0 = machine0]
    abrupt_substep_propagates
    [where E = machine_engine
       and node = "\<lparr>operator = ''='', left = Identifier ''x'', right = Identifier ''y''\<rparr>"
       and s = machine0 and a = ReferenceError
       and lref = "Reference ''x''" and ?s1.0 = machine0
       and rref = "Reference ''y''" and ?s2.0 = machine0 and ?s3.0 = machine0]
  by (simp add: machine_engine_def machine0_def)

lemma destructuring_target_falls_through:
  "operator node = ''='' \<Longrightarrow> isObjectLiteral E (left node) \<or> isArrayLiteral E (left node) \<Longrightarrow>
     Evaluate_AssignmentExpression E node w = (ReturnsNothing, w)"
  by (auto simp: Evaluate_AssignmentExpression_def)

text \<open>
  C4, as amended.  For a plain \<open>=\<close> whose target is an object literal or an array literal
  the function does not take the path through a Reference, \<open>GetValue\<close> and
  \<open>PutValue\<close>: it calls none of the operations, so neither the target nor the source is
  evaluated and nothing is written, and the state is as it was.  An evaluation of
  destructuring assignments is not among the operations the function imports.
\<close>

theorem destructuring_target_evaluates_nothing:
  assumes "operator node = ''=''"
    and "isObjectLiteral E (left node) \<or> isArrayLiteral E (left node)"
  shows "snd (Evaluate_AssignmentExpression E node (s, calls)) = (s, calls)"
  using assms by (simp add: destructuring_target_falls_through)

theorem destructuring_target_evaluates_nothing_witness:
  "operator \<lparr>operator = ''='', left = ArrayLiteral, right = Identifier ''x''\<rparr> = ''=''
   \<and> isArrayLiteral machine_engine ArrayLiteral
   \<and> snd (Evaluate_AssignmentExpression machine_engine
         \<lparr>operator = ''='', left = ArrayLiteral, right = Identifier ''x''\<rparr> (machine0, [])) =
       (machine0, [])"
  using destructuring_target_evaluates_nothing
    [where node = "\<lparr>operator = ''='', left = ArrayLiteral, right = Identifier ''x''\<rparr>"
       and E = machine_engine and s = machine0 and calls = "[]"]
  by (simp add: machine_engine_def)

text \<open>
  C4 as the specification words it fails.  The assignment \<open>[] = x\<close>, a plain \<open>=\<close> whose
  target is an array literal: the function calls nothing and ends without a \<^verbatim>\<open>return\<close>;
  no destructuring assignment is evaluated and no completion comes back.
\<close>

theorem destructuring_target_returns_nothing:
  "isArrayLiteral machine_engine ArrayLiteral
   \<and> Evaluate_AssignmentExpression machine_engine
       \<lparr>operator = ''='', left = ArrayLiteral, right = Identifier ''x''\<rparr> (machine0, []) =
     (ReturnsNothing, (machine0, []))"
  by (simp add: Evaluate_AssignmentExpression_def machine_engine_def)


section \<open>The worker, running the code: proofs\<close>




section \<open>Realms: proofs\<close>

lemma foldl_bootstrap:
  "foldl (\<lambda>(ih, steps) routine. (bootstrap routine ih, steps @ [Called routine])) (ih, steps) rs =
     (foldl (\<lambda>ih routine. bootstrap routine ih) ih rs, steps @ map Called rs)"
  by (induction rs arbitrary: ih steps) simp_all

lemma slots_Prototype:
  "(Map.empty(''Prototype'' \<mapsto> Undefined, ''Extensible'' \<mapsto> BooleanValue True))
     (''Prototype'' := proto) =
   (Map.empty(''Extensible'' \<mapsto> BooleanValue True))(''Prototype'' := proto)"
  by (rule ext) simp

lemma OrdinaryObjectCreate_fresh:
  "OrdinaryObjectCreate proto None h =
     (ObjectValue (length h),
      h @ [ObjectCell
             \<lparr>InternalSlots = (Map.empty(''Extensible'' \<mapsto> BooleanValue True))(''Prototype'' := proto),
              properties = []\<rparr>])"
  by (simp add: OrdinaryObjectCreate_def MakeBasicObject_def alloc_def set_slot_def lookup_def
        Let_def nth_append fun_upd_twist slots_Prototype)

lemma slots_Some:
  "(Map.empty(''Extensible'' \<mapsto> BooleanValue True))(''Prototype'' := Some proto) =
   [''Prototype'' \<mapsto> proto, ''Extensible'' \<mapsto> BooleanValue True]"
  by (rule ext) simp

lemma NewGlobalEnvironment_cells:
  "NewGlobalEnvironment g t h =
     (EnvAt (length h + 2),
      h @ [ObjectEnvironmentCell
             \<lparr>OuterEnv = NotAnEnv Null, BindingObject = g, IsWithEnvironment = BooleanValue False\<rparr>,
           DeclarativeEnvironmentCell \<lparr>OuterEnv = NotAnEnv Null, bindings = []\<rparr>,
           GlobalEnvironmentCell
             \<lparr>OuterEnv = NotAnEnv Null, ObjectRecord = EnvAt (length h), GlobalThisValue = t,
              DeclarativeRecord = EnvAt (length h + 1), VarNames = []\<rparr>])"
  by (simp add: NewGlobalEnvironment_def NewObjectEnvironment_def
        new_DeclarativeEnvironmentRecord_def alloc_def Let_def)

lemma CreateIntrinsics_steps:
  "snd (snd (snd (CreateIntrinsics bootstrap AddRestrictedFunctionProperties realmRec (h, [])))) =
     Assigned_intrinsic ''%Object.prototype%'' (ObjectValue (length h))
     # map Called bootstrap_calls
     @ [Called_AddRestrictedFunctionProperties
          (fst (foldl (\<lambda>ih routine. bootstrap routine ih)
                  ([''%Object.prototype%'' \<mapsto> ObjectValue (length h)],
                   h @ [ObjectCell
                          \<lparr>InternalSlots = [''Prototype'' \<mapsto> Null,
                                            ''Extensible'' \<mapsto> BooleanValue True],
                           properties = []\<rparr>])
                  bootstrap_calls) ''%Function.prototype%'')]"
  by (simp add: CreateIntrinsics_def Let_def OrdinaryObjectCreate_fresh slots_Some foldl_bootstrap
        split: prod.splits)

lemma called_map_Called: "called (map Called rs) = rs"
  by (induction rs) simp_all

lemma called_append: "called (xs @ ys) = called xs @ called ys"
  by (induction xs rule: called.induct) simp_all

text \<open>
  C5, as amended.  \<^verbatim>\<open>CreateIntrinsics\<close> first assigns a new object to
  \<^verbatim>\<open>%Object.prototype%\<close>, then calls the bootstrap routines in the order of
  \<open>bootstrap_calls\<close>, then calls \<^verbatim>\<open>AddRestrictedFunctionProperties\<close> on the
  \<^verbatim>\<open>%Function.prototype%\<close> the routines left.  The families come one after the other in
  this order: function and object primitives, global functions, the Object constructor, the
  Error family, Function, the iterator family, the primitive wrapper types, Promise, Proxy
  and Reflect, Math, Date and RegExp, Set and Map, the generator and async-function
  families, the typed-array family, DataView and JSON, and last WeakMap, WeakSet, WeakRef
  and FinalizationRegistry.
\<close>

theorem CreateIntrinsics_bootstrap_order:
  "snd (snd (snd (CreateIntrinsics bootstrap AddRestrictedFunctionProperties realmRec (h, [])))) =
     Assigned_intrinsic ''%Object.prototype%'' (ObjectValue (length h))
     # map Called bootstrap_calls
     @ [Called_AddRestrictedFunctionProperties
          (fst (foldl (\<lambda>ih routine. bootstrap routine ih)
                  ([''%Object.prototype%'' \<mapsto> ObjectValue (length h)],
                   h @ [ObjectCell
                          \<lparr>InternalSlots = [''Prototype'' \<mapsto> Null,
                                            ''Extensible'' \<mapsto> BooleanValue True],
                           properties = []\<rparr>])
                  bootstrap_calls) ''%Function.prototype%'')]
   \<and> remdups_adj (map family_of bootstrap_calls) =
       map Some
         [FunctionObjectPrimitives, GlobalFunctions, ObjectConstructor, ErrorFamily,
          FunctionConstructor, IteratorFamily, PrimitiveWrappers, PromiseFamily, ProxyReflect,
          MathNamespace, DateRegExp, Collections, GeneratorAsyncFamilies, TypedArrayFamily,
          DataViewJSON, WeakCollections]"
proof -
  have "remdups_adj (map family_of bootstrap_calls) =
       map Some
         [FunctionObjectPrimitives, GlobalFunctions, ObjectConstructor, ErrorFamily,
          FunctionConstructor, IteratorFamily, PrimitiveWrappers, PromiseFamily, ProxyReflect,
          MathNamespace, DateRegExp, Collections, GeneratorAsyncFamilies, TypedArrayFamily,
          DataViewJSON, WeakCollections]"
    by (simp add: bootstrap_calls_def family_of_def families_def)
  with CreateIntrinsics_steps [of bootstrap AddRestrictedFunctionProperties realmRec h]
  show ?thesis by simp
qed

text \<open>
  C5 as the specification words it fails: with WeakMap, WeakSet, WeakRef and
  FinalizationRegistry counted among the collection types, the collection types do not all
  come before the generator families, the typed arrays, DataView and JSON; they come up a
  second time at the end.
\<close>

theorem CreateIntrinsics_spec_order_counterexample:
  "remdups_adj (map spec_family_of
      (called (snd (snd (snd (CreateIntrinsics idle_bootstrap
         idle_AddRestrictedFunctionProperties new_Realm ([], []))))))) =
     map Some (spec_order @ [Collections])
   \<and> remdups_adj (map spec_family_of
      (called (snd (snd (snd (CreateIntrinsics idle_bootstrap
         idle_AddRestrictedFunctionProperties new_Realm ([], []))))))) \<noteq>
     map Some spec_order
   \<and> spec_family_of ''bootstrapJSON'' = Some DataViewJSON
   \<and> spec_family_of ''bootstrapWeakMapPrototype'' = Some Collections"
proof -
  have c: "called (snd (snd (snd (CreateIntrinsics idle_bootstrap
         idle_AddRestrictedFunctionProperties new_Realm ([], []))))) = bootstrap_calls"
    by (simp add: CreateIntrinsics_steps called_append called_map_Called)
  have f: "remdups_adj (map spec_family_of bootstrap_calls) = map Some (spec_order @ [Collections])"
    by (simp add: bootstrap_calls_def family_of_def families_def spec_family_of_def spec_order_def)
  have "spec_family_of ''bootstrapJSON'' = Some DataViewJSON"
    and "spec_family_of ''bootstrapWeakMapPrototype'' = Some Collections"
    by (simp_all add: family_of_def families_def spec_family_of_def)
  with c f show ?thesis by (simp add: spec_order_def)
qed

text \<open>
  C6.  On a realm record whose intrinsics hold \<^verbatim>\<open>%Object.prototype%\<close>: when \<open>globalObj\<close> is
  undefined the global object is a new ordinary object (a new cell of the heap) with that
  prototype, extensible and without properties; when \<open>thisValue\<close> is undefined it becomes
  the global object.  The realm's global environment is a new global environment record with
  a new object record (binding object the global object, \<open>IsWithEnvironment\<close> false), a new
  empty declarative record, the \<open>this\<close> value, no var names and outer environment null.
  The cells the heap had are as they were.
\<close>

theorem SetRealmGlobalObject_global_environment:
  assumes "Intrinsics realmRec = Some intrinsics"
    and "intrinsics ''%Object.prototype%'' = Some proto"
  shows "SetRealmGlobalObject realmRec globalObj thisValue h =
     (let created = (globalObj = Undefined);
          global = (if created then ObjectValue (length h) else globalObj);
          this = (if thisValue = Undefined then global else thisValue);
          h0 = (if created
                then h @ [ObjectCell
                            \<lparr>InternalSlots = [''Prototype'' \<mapsto> proto,
                                              ''Extensible'' \<mapsto> BooleanValue True],
                             properties = []\<rparr>]
                else h)
      in (Returns (realmRec\<lparr>GlobalObject := Some global,
                             GlobalEnv := Some (EnvAt (length h0 + 2))\<rparr>),
          h0 @ [ObjectEnvironmentCell
                  \<lparr>OuterEnv = NotAnEnv Null, BindingObject = global,
                   IsWithEnvironment = BooleanValue False\<rparr>,
                DeclarativeEnvironmentCell \<lparr>OuterEnv = NotAnEnv Null, bindings = []\<rparr>,
                GlobalEnvironmentCell
                  \<lparr>OuterEnv = NotAnEnv Null, ObjectRecord = EnvAt (length h0),
                   GlobalThisValue = this, DeclarativeRecord = EnvAt (length h0 + 1),
                   VarNames = []\<rparr>]))"
  using assms
  by (simp add: SetRealmGlobalObject_def Let_def OrdinaryObjectCreate_fresh
        NewGlobalEnvironment_cells slots_Some)

lemma foldl_idle: "foldl (\<lambda>ih routine. idle_bootstrap routine ih) ih rs = ih"
  by (induction rs) (simp_all add: idle_bootstrap_def)

lemma CreateRealm_idle:
  "CreateRealm idle_bootstrap idle_AddRestrictedFunctionProperties ([], []) =
     (\<lparr>Intrinsics = Some [''%Object.prototype%'' \<mapsto> ObjectValue 0],
       GlobalObject = Some Undefined, GlobalEnv = Some (NotAnEnv Undefined),
       TemplateMap = Some [], HostDefined = None, randomState = None\<rparr>,
      [ObjectCell
         \<lparr>InternalSlots = [''Prototype'' \<mapsto> Null, ''Extensible'' \<mapsto> BooleanValue True],
          properties = []\<rparr>],
      Assigned_intrinsic ''%Object.prototype%'' (ObjectValue 0) # map Called bootstrap_calls
        @ [Called_AddRestrictedFunctionProperties None])"
  by (simp add: CreateRealm_def CreateIntrinsics_def Let_def OrdinaryObjectCreate_fresh slots_Some
        foldl_bootstrap foldl_idle idle_AddRestrictedFunctionProperties_def new_Realm_def)

theorem SetRealmGlobalObject_global_environment_witness:
  "Intrinsics (fst (CreateRealm idle_bootstrap idle_AddRestrictedFunctionProperties ([], []))) =
     Some [''%Object.prototype%'' \<mapsto> ObjectValue 0]
   \<and> [''%Object.prototype%'' \<mapsto> ObjectValue 0] ''%Object.prototype%'' = Some (ObjectValue 0)
   \<and> SetRealmGlobalObject
       (fst (CreateRealm idle_bootstrap idle_AddRestrictedFunctionProperties ([], [])))
       Undefined Undefined
       (fst (snd (CreateRealm idle_bootstrap idle_AddRestrictedFunctionProperties ([], [])))) =
     (Returns
        \<lparr>Intrinsics = Some [''%Object.prototype%'' \<mapsto> ObjectValue 0],
         GlobalObject = Some (ObjectValue 1), GlobalEnv = Some (EnvAt 4),
         TemplateMap = Some [], HostDefined = None, randomState = None\<rparr>,
      [ObjectCell
         \<lparr>InternalSlots = [''Prototype'' \<mapsto> Null, ''Extensible'' \<mapsto> BooleanValue True],
          properties = []\<rparr>,
       ObjectCell
         \<lparr>InternalSlots = [''Prototype'' \<mapsto> ObjectValue 0, ''Extensible'' \<mapsto> BooleanValue True],
          properties = []\<rparr>,
       ObjectEnvironmentCell
         \<lparr>OuterEnv = NotAnEnv Null, BindingObject = ObjectValue 1,
          IsWithEnvironment = BooleanValue False\<rparr>,
       DeclarativeEnvironmentCell \<lparr>OuterEnv = NotAnEnv Null, bindings = []\<rparr>,
       GlobalEnvironmentCell
         \<lparr>OuterEnv = NotAnEnv Null, ObjectRecord = EnvAt 2, GlobalThisValue = ObjectValue 1,
          DeclarativeRecord = EnvAt 3, VarNames = []\<rparr>])"
  using SetRealmGlobalObject_global_environment
    [where realmRec = "fst (CreateRealm idle_bootstrap idle_AddRestrictedFunctionProperties ([], []))"
       and intrinsics = "[''%Object.prototype%'' \<mapsto> ObjectValue 0]"
       and proto = "ObjectValue 0" and globalObj = Undefined and thisValue = Undefined
       and h = "fst (snd (CreateRealm idle_bootstrap idle_AddRestrictedFunctionProperties ([], [])))"]
  by (simp add: CreateRealm_idle Let_def eval_nat_numeral)

section \<open>Default global bindings: proofs\<close>

lemma forEach_Cons: "forEach f (x # xs) w = forEach f xs (snd (f x w))"
  by (simp add: forEach_def)

lemma forEach_Nil: "forEach f [] w = w"
  by (simp add: forEach_def)





lemma define_installed:
  assumes D: "define_contract D g" and inv: "installed g (h, log)"
    and new: "P \<notin> key_of ` set log"
    and run: "D g P d h = (c, h')"
  shows "installed g (h', log @ [Call_DefinePropertyOrThrow g P d c])"
proof (cases c)
  case (Abrupt a)
  then show ?thesis by (simp add: installed_def)
next
  case (NormalCompletion v)
  with D run have set: "populated d \<Longrightarrow> own_property h' g P = Some d"
    and frame: "\<And>P'. P' \<noteq> P \<Longrightarrow> own_property h' g P' = own_property h g P'"
    unfolding define_contract_def by blast+
  show ?thesis
    unfolding installed_def
  proof (intro impI ballI)
    fix c'
    assume acc: "list_all accepted (snd (h', log @ [Call_DefinePropertyOrThrow g P d c]))"
      and mem: "c' \<in> set (snd (h', log @ [Call_DefinePropertyOrThrow g P d c]))"
      and pop: "populated (descriptor_of c')"
    from mem consider "c' \<in> set log" | "c' = Call_DefinePropertyOrThrow g P d c" by auto
    then show "own_property (fst (h', log @ [Call_DefinePropertyOrThrow g P d c])) g (key_of c') =
                 Some (descriptor_of c')"
    proof cases
      case 1
      with new have "key_of c' \<noteq> P" by auto
      with frame have "own_property h' g (key_of c') = own_property h g (key_of c')" by simp
      moreover from inv acc 1 pop have "own_property h g (key_of c') = Some (descriptor_of c')"
        by (simp add: installed_def)
      ultimately show ?thesis by simp
    next
      case 2
      with pop set show ?thesis by simp
    qed
  qed
qed

lemma forEach_installed:
  assumes step: "\<And>x h log. snd (f x (h, log)) =
             (snd (D g (k x) (d x) h),
              log @ [Call_DefinePropertyOrThrow g (k x) (d x) (fst (D g (k x) (d x) h))])"
    and D: "define_contract D g"
  shows "distinct (map k xs) \<Longrightarrow> set (map k xs) \<inter> key_of ` set log = {} \<Longrightarrow>
         installed g (h, log) \<Longrightarrow>
         installed g (forEach f xs (h, log))
         \<and> map key_of (snd (forEach f xs (h, log))) = map key_of log @ map k xs"
proof (induction xs arbitrary: h log)
  case Nil
  then show ?case by (simp add: forEach_Nil)
next
  case (Cons x xs)
  let ?c = "Call_DefinePropertyOrThrow g (k x) (d x) (fst (D g (k x) (d x) h))"
  let ?h = "snd (D g (k x) (d x) h)"
  have s: "snd (f x (h, log)) = (?h, log @ [?c])" by (rule step)
  from Cons.prems have new: "k x \<notin> key_of ` set log" by auto
  have inv: "installed g (?h, log @ [?c])"
    by (rule define_installed [OF D Cons.prems(3) new]) simp
  from Cons.prems have d: "distinct (map k xs)"
    and disj: "set (map k xs) \<inter> key_of ` set (log @ [?c]) = {}"
    by auto
  from Cons.IH [OF d disj inv] show ?case
    by (simp add: forEach_Cons s)
qed

lemma define_value_property_step:
  "snd (define_value_property D g x (h, log)) =
     (snd (D g (StringValue (fst x))
             (Descriptor (Some (snd x)) (BooleanValue False) (BooleanValue False)
                (BooleanValue False)) h),
      log @ [Call_DefinePropertyOrThrow g (StringValue (fst x))
               (Descriptor (Some (snd x)) (BooleanValue False) (BooleanValue False)
                  (BooleanValue False))
               (fst (D g (StringValue (fst x))
                       (Descriptor (Some (snd x)) (BooleanValue False) (BooleanValue False)
                          (BooleanValue False)) h))])"
  by (cases x;
      cases "D g (StringValue (fst x))
               (Descriptor (Some (snd x)) (BooleanValue False) (BooleanValue False)
                  (BooleanValue False)) h")
     (auto simp: define_value_property_def Q_def logged_def Let_def NewValue_def
        split: Completion.splits)

lemma define_intrinsic_property_step:
  "snd (define_intrinsic_property D g tbl x (h, log)) =
     (snd (D g (StringValue x)
             (Descriptor (tbl (''%'' @ x @ ''%'')) (BooleanValue True) (BooleanValue False)
                (BooleanValue True)) h),
      log @ [Call_DefinePropertyOrThrow g (StringValue x)
               (Descriptor (tbl (''%'' @ x @ ''%'')) (BooleanValue True) (BooleanValue False)
                  (BooleanValue True))
               (fst (D g (StringValue x)
                       (Descriptor (tbl (''%'' @ x @ ''%'')) (BooleanValue True)
                          (BooleanValue False) (BooleanValue True)) h))])"
  by (cases "D g (StringValue x)
               (Descriptor (tbl (''%'' @ x @ ''%'')) (BooleanValue True) (BooleanValue False)
                  (BooleanValue True)) h")
     (auto simp: define_intrinsic_property_def Q_def logged_def Let_def NewValue_def
        split: Completion.splits)

lemma distinct_keys:
  "distinct (map fst value_properties @ [''globalThis''] @ intrinsic_properties)"
  by (simp add: value_properties_def intrinsic_properties_def)

lemma entry_of_eq: "entry_of c = (key_of c, descriptor_of c)"
  by (cases c) simp

lemma forEach_entries:
  assumes step: "\<And>x h log. snd (f x (h, log)) =
             (snd (D g (k x) (d x) h),
              log @ [Call_DefinePropertyOrThrow g (k x) (d x) (fst (D g (k x) (d x) h))])"
  shows "map entry_of (snd (forEach f xs (h, log))) = map entry_of log @ map (\<lambda>x. (k x, d x)) xs"
proof (induction xs arbitrary: h log)
  case Nil
  then show ?case by (simp add: forEach_Nil)
next
  case (Cons x xs)
  show ?case
    by (simp add: forEach_Cons step Cons.IH)
qed

lemma default_bindings_installed:
  assumes D: "define_contract D (GlobalObject realmRec)"
  shows "installed (GlobalObject realmRec) (snd (SetDefaultGlobalBindings D realmRec (h, [])))"
proof -
  let ?g = "GlobalObject realmRec"
  let ?k1 = "\<lambda>x :: string \<times> Value. StringValue (fst x)"
  let ?d1 = "\<lambda>x :: string \<times> Value. Descriptor (Some (snd x)) (BooleanValue False)
               (BooleanValue False) (BooleanValue False)"
  let ?w1 = "forEach (define_value_property D ?g) value_properties (h, [])"
  have keys: "distinct (map fst value_properties @ [''globalThis''] @ intrinsic_properties)"
    by (rule distinct_keys)
  have inj: "inj StringValue" by (simp add: inj_def)
  have d1: "distinct (map ?k1 value_properties)"
    using keys by (simp add: distinct_map inj_on_def comp_def)
  have i1: "installed ?g ?w1"
    and k1: "map key_of (snd ?w1) = map ?k1 value_properties"
    using forEach_installed [of "define_value_property D ?g" D ?g ?k1 ?d1 value_properties "[]" h,
        OF define_value_property_step D d1]
    by (simp_all add: installed_def)
  obtain h1 cs1 where w1: "?w1 = (h1, cs1)" by (cases ?w1)
  show ?thesis
  proof (cases "GlobalEnv realmRec")
    case None
    then show ?thesis using i1 by (simp add: SetDefaultGlobalBindings_def Let_def)
  next
    case env: (Some env)
    let ?desc = "Descriptor (read_GlobalThisValue h1 env) (BooleanValue True)
                        (BooleanValue False) (BooleanValue True)"
    obtain c2 h2 where d2: "D ?g (StringValue ''globalThis'') ?desc h1 = (c2, h2)"
      by (cases "D ?g (StringValue ''globalThis'') ?desc h1")
    let ?call = "Call_DefinePropertyOrThrow ?g (StringValue ''globalThis'') ?desc c2"
    from keys have gT: "''globalThis'' \<notin> set (map fst value_properties)" by simp
    from k1 w1 have "set (map key_of cs1) = set (map ?k1 value_properties)" by simp
    then have ks: "key_of ` set cs1 = StringValue ` set (map fst value_properties)"
      by (simp add: image_image)
    with gT have new: "StringValue ''globalThis'' \<notin> key_of ` set cs1" by auto
    from i1 w1 have "installed ?g (h1, cs1)" by simp
    from define_installed [OF D this new d2]
    have i2: "installed ?g (h2, cs1 @ [?call])" .
    show ?thesis
    proof (cases c2)
      case (Abrupt a)
      with env w1 d2 i2 show ?thesis
        by (simp add: SetDefaultGlobalBindings_def Let_def logged_def Q_def NewValue_def)
    next
      case (NormalCompletion v)
      show ?thesis
      proof (cases "Intrinsics realmRec")
        case None
        with env NormalCompletion w1 d2 i2 show ?thesis
          by (simp add: SetDefaultGlobalBindings_def Let_def logged_def Q_def NewValue_def)
      next
        case (Some tbl)
        let ?d3 = "\<lambda>x. Descriptor (tbl (''%'' @ x @ ''%'')) (BooleanValue True)
                     (BooleanValue False) (BooleanValue True)"
        have d3: "distinct (map StringValue intrinsic_properties)"
          using keys by (simp add: distinct_map inj_on_def)
        from ks have "key_of ` set (cs1 @ [?call]) =
                        StringValue ` (set (map fst value_properties) \<union> {''globalThis''})"
          by auto
        moreover from keys have "set intrinsic_properties
                        \<inter> (set (map fst value_properties) \<union> {''globalThis''}) = {}"
          by auto
        ultimately have disj: "set (map StringValue intrinsic_properties)
                              \<inter> key_of ` set (cs1 @ [?call]) = {}"
          by auto
        from forEach_installed [of "define_intrinsic_property D ?g tbl" D ?g StringValue ?d3
            intrinsic_properties "cs1 @ [?call]" h2,
            OF define_intrinsic_property_step D d3 disj i2]
        have "installed ?g (forEach (define_intrinsic_property D ?g tbl) intrinsic_properties
                 (h2, cs1 @ [?call]))"
          by simp
        with Some env NormalCompletion w1 d2 show ?thesis
          by (simp add: SetDefaultGlobalBindings_def Let_def logged_def Q_def NewValue_def)
      qed
    qed
  qed
qed

lemma SetDefaultGlobalBindings_entries:
  assumes "fst (SetDefaultGlobalBindings D realmRec (h, [])) = Returns g"
  shows "\<exists>t tbl. Intrinsics realmRec = Some tbl \<and> g = GlobalObject realmRec
     \<and> map entry_of (snd (snd (SetDefaultGlobalBindings D realmRec (h, [])))) =
         map (\<lambda>x. (StringValue (fst x),
                    Descriptor (Some (snd x)) (BooleanValue False) (BooleanValue False)
                      (BooleanValue False))) value_properties
         @ [(StringValue ''globalThis'',
             Descriptor t (BooleanValue True) (BooleanValue False) (BooleanValue True))]
         @ map (\<lambda>x. (StringValue x,
                      Descriptor (tbl (''%'' @ x @ ''%'')) (BooleanValue True)
                        (BooleanValue False) (BooleanValue True))) intrinsic_properties"
proof -
  let ?g = "GlobalObject realmRec"
  let ?w1 = "forEach (define_value_property D ?g) value_properties (h, [])"
  obtain h1 cs1 where w1: "?w1 = (h1, cs1)" by (cases ?w1)
  from forEach_entries [of "define_value_property D ?g" D ?g "\<lambda>x. StringValue (fst x)" _
      value_properties h "[]", OF define_value_property_step] w1
  have e1: "map entry_of cs1 =
         map (\<lambda>x. (StringValue (fst x),
                    Descriptor (Some (snd x)) (BooleanValue False) (BooleanValue False)
                      (BooleanValue False))) value_properties"
    by simp
  from assms w1 obtain env where env: "GlobalEnv realmRec = Some env"
    by (cases "GlobalEnv realmRec") (auto simp: SetDefaultGlobalBindings_def Let_def)
  let ?desc = "Descriptor (read_GlobalThisValue h1 env) (BooleanValue True)
                        (BooleanValue False) (BooleanValue True)"
  obtain c2 h2 where d2: "D ?g (StringValue ''globalThis'') ?desc h1 = (c2, h2)"
    by (cases "D ?g (StringValue ''globalThis'') ?desc h1")
  let ?call = "Call_DefinePropertyOrThrow ?g (StringValue ''globalThis'') ?desc c2"
  from assms w1 env d2 obtain v where c2: "c2 = NormalCompletion v"
    by (cases c2) (auto simp: SetDefaultGlobalBindings_def Let_def logged_def Q_def NewValue_def)
  from assms w1 env d2 c2 obtain tbl where tbl: "Intrinsics realmRec = Some tbl"
    by (cases "Intrinsics realmRec")
       (auto simp: SetDefaultGlobalBindings_def Let_def logged_def Q_def NewValue_def)
  from w1 env d2 c2 tbl
  have res: "SetDefaultGlobalBindings D realmRec (h, []) =
               (Returns ?g, forEach (define_intrinsic_property D ?g tbl) intrinsic_properties
                 (h2, cs1 @ [?call]))"
    by (simp add: SetDefaultGlobalBindings_def Let_def logged_def Q_def NewValue_def)
  from forEach_entries [of "define_intrinsic_property D ?g tbl" D ?g StringValue _
      intrinsic_properties h2 "cs1 @ [?call]", OF define_intrinsic_property_step]
  have e3: "map entry_of (snd (forEach (define_intrinsic_property D ?g tbl) intrinsic_properties
                 (h2, cs1 @ [?call]))) =
            map entry_of (cs1 @ [?call])
            @ map (\<lambda>x. (StringValue x,
                      Descriptor (tbl (''%'' @ x @ ''%'')) (BooleanValue True)
                        (BooleanValue False) (BooleanValue True))) intrinsic_properties"
    by simp
  from assms res have g: "g = ?g" by simp
  show ?thesis
    using tbl g e1 e3 by (intro exI [of _ "read_GlobalThisValue h1 env"] exI [of _ tbl]) (simp add: res)
qed

lemma accepting_contract: "define_contract accepting_DefinePropertyOrThrow g"
  unfolding define_contract_def
proof (intro allI impI)
  fix P d h v h'
  assume run: "accepting_DefinePropertyOrThrow g P d h = (NormalCompletion v, h')"
  then obtain a obj where g: "g = Some (ObjectValue a)" and cell: "lookup h a = Some (ObjectCell obj)"
    and h': "h' = h[a := ObjectCell (obj\<lparr>properties := AList.update P d (properties obj)\<rparr>)]"
    by (auto simp: accepting_DefinePropertyOrThrow_def split: option.splits Value.splits cell.splits)
  from cell have a: "a < length h" by (simp add: lookup_def split: if_splits)
  from cell a have obj: "object_at h g = Some obj" by (simp add: object_at_def g)
  from a have obj': "object_at h' g =
                       Some (obj\<lparr>properties := AList.update P d (properties obj)\<rparr>)"
    by (simp add: object_at_def g h' lookup_def)
  show "(populated d \<longrightarrow> own_property h' g P = Some d) \<and>
        (\<forall>P'. P' \<noteq> P \<longrightarrow> own_property h' g P' = own_property h g P')"
    by (simp add: own_property_def obj obj' update_conv')
qed
















text \<open>
  Where no definition is refused the properties are the ones listed: if every call was
  accepted and the function returned the global object, then \<^verbatim>\<open>Infinity\<close>, \<^verbatim>\<open>NaN\<close> and
  \<^verbatim>\<open>undefined\<close> are data properties with their values, not writable, not enumerable and
  not configurable, and each listed name whose intrinsic exists is a writable, configurable
  data property with that intrinsic as its value.
\<close>

lemma default_bindings_as_listed:
  assumes D: "define_contract D (GlobalObject realmRec)"
    and ret: "SetDefaultGlobalBindings D realmRec (h, []) = (Returns g, (h', log))"
    and acc: "list_all accepted log"
  shows "\<exists>tbl. Intrinsics realmRec = Some tbl
     \<and> (\<forall>x \<in> set value_properties.
           own_property h' g (StringValue (fst x)) =
             Some (Descriptor (Some (snd x)) (BooleanValue False) (BooleanValue False)
                     (BooleanValue False)))
     \<and> (\<forall>x \<in> set intrinsic_properties. \<forall>v. tbl (''%'' @ x @ ''%'') = Some v \<longrightarrow>
           own_property h' g (StringValue x) =
             Some (Descriptor (Some v) (BooleanValue True) (BooleanValue False)
                     (BooleanValue True)))"
proof -
  from ret have r: "fst (SetDefaultGlobalBindings D realmRec (h, [])) = Returns g" by simp
  from SetDefaultGlobalBindings_entries [OF r] ret obtain t tbl where
    tbl: "Intrinsics realmRec = Some tbl" and g: "g = GlobalObject realmRec"
    and e: "map entry_of log =
         map (\<lambda>x. (StringValue (fst x),
                    Descriptor (Some (snd x)) (BooleanValue False) (BooleanValue False)
                      (BooleanValue False))) value_properties
         @ [(StringValue ''globalThis'',
             Descriptor t (BooleanValue True) (BooleanValue False) (BooleanValue True))]
         @ map (\<lambda>x. (StringValue x,
                      Descriptor (tbl (''%'' @ x @ ''%'')) (BooleanValue True)
                        (BooleanValue False) (BooleanValue True))) intrinsic_properties"
    by auto
  from default_bindings_installed [OF D, of h] ret acc g
  have inst: "\<And>c. c \<in> set log \<Longrightarrow> populated (descriptor_of c) \<Longrightarrow>
                 own_property h' g (key_of c) = Some (descriptor_of c)"
    by (simp add: installed_def)
  have found: "own_property h' g P = Some d"
    if "(P, d) \<in> set (map entry_of log)" and "populated d" for P d
  proof -
    from that(1) obtain c where "c \<in> set log" and "entry_of c = (P, d)" by auto
    with inst [of c] that(2) show ?thesis by (simp add: entry_of_eq)
  qed
  have pop: "populated (Descriptor (Some v) w e c)" for v w e c
    by (simp add: populated_def Descriptor_def)
  show ?thesis
  proof (intro exI [of _ tbl] conjI ballI allI impI)
    show "Intrinsics realmRec = Some tbl" by (rule tbl)
  next
    fix x assume "x \<in> set value_properties"
    then have "(StringValue (fst x),
                 Descriptor (Some (snd x)) (BooleanValue False) (BooleanValue False)
                   (BooleanValue False)) \<in> set (map entry_of log)"
      unfolding e by auto
    then show "own_property h' g (StringValue (fst x)) =
             Some (Descriptor (Some (snd x)) (BooleanValue False) (BooleanValue False)
                     (BooleanValue False))"
      by (rule found) (rule pop)
  next
    fix x v assume "x \<in> set intrinsic_properties" and v: "tbl (''%'' @ x @ ''%'') = Some v"
    then have "(StringValue x,
                 Descriptor (Some v) (BooleanValue True) (BooleanValue False)
                   (BooleanValue True)) \<in> set (map entry_of log)"
      unfolding e by force
    then show "own_property h' g (StringValue x) =
             Some (Descriptor (Some v) (BooleanValue True) (BooleanValue False)
                     (BooleanValue True))"
      by (rule found) (rule pop)
  qed
qed

text \<open>
  Whatever \<^verbatim>\<open>DefinePropertyOrThrow\<close> answers inside the two loops, the function returns
  the global object as soon as the definition of \<^verbatim>\<open>globalThis\<close> is accepted.
\<close>

lemma SetDefaultGlobalBindings_returns_despite_refusals:
  assumes "GlobalEnv realmRec = Some env" and "Intrinsics realmRec = Some tbl"
    and "\<And>d h. \<exists>v h'. D (GlobalObject realmRec) (StringValue ''globalThis'') d h =
                          (NormalCompletion v, h')"
  shows "fst (SetDefaultGlobalBindings D realmRec (h, [])) = Returns (GlobalObject realmRec)"
proof -
  obtain h1 cs1 where
    l1: "forEach (define_value_property D (GlobalObject realmRec)) value_properties (h, []) =
           (h1, cs1)"
    by (cases "forEach (define_value_property D (GlobalObject realmRec)) value_properties (h, [])")
  from assms(3) obtain v h2 where
    d2: "D (GlobalObject realmRec) (StringValue ''globalThis'')
           (Descriptor (read_GlobalThisValue h1 env) (BooleanValue True) (BooleanValue False)
              (BooleanValue True)) h1 = (NormalCompletion v, h2)"
    by blast
  show ?thesis
    using assms(1,2) l1 d2
    by (simp add: SetDefaultGlobalBindings_def Let_def logged_def Q_def NewValue_def)
qed

text \<open>
  C7.  On the realm \<open>host_realm\<close>, whose global object already has \<^verbatim>\<open>NaN\<close> as a property
  that is neither writable nor configurable, with the value 0: the definition of \<^verbatim>\<open>NaN\<close> is
  refused with a TypeError, which the callback of \<^verbatim>\<open>forEach\<close> returns and \<^verbatim>\<open>forEach\<close>
  drops; the later definitions are made (\<^verbatim>\<open>Infinity\<close> before it and \<^verbatim>\<open>Reflect\<close>, the last
  one, are there), the function returns the global object, and the global object's
  \<^verbatim>\<open>NaN\<close> still has the value 0.
\<close>

theorem SetDefaultGlobalBindings_drops_refused_definition:
  "fst (SetDefaultGlobalBindings ordinary_DefinePropertyOrThrow host_realm (host_heap, [])) =
     Returns (Some (ObjectValue 0))
   \<and> snd (snd (SetDefaultGlobalBindings ordinary_DefinePropertyOrThrow host_realm
          (host_heap, []))) ! 1 =
     Call_DefinePropertyOrThrow (Some (ObjectValue 0)) (StringValue ''NaN'')
       (Descriptor (Some (NumberValue NaN)) (BooleanValue False) (BooleanValue False)
          (BooleanValue False))
       (Abrupt TypeError)
   \<and> own_property
       (fst (snd (SetDefaultGlobalBindings ordinary_DefinePropertyOrThrow host_realm
          (host_heap, []))))
       (Some (ObjectValue 0)) (StringValue ''NaN'') =
     Some \<lparr>Value = Some (NumberValue (Finite 0)), Get = None, Set = None,
           Writable = Some (BooleanValue False), Enumerable = Some (BooleanValue False),
           Configurable = Some (BooleanValue False)\<rparr>
   \<and> own_property
       (fst (snd (SetDefaultGlobalBindings ordinary_DefinePropertyOrThrow host_realm
          (host_heap, []))))
       (Some (ObjectValue 0)) (StringValue ''Infinity'') =
     Some (Descriptor (Some (NumberValue Infinity)) (BooleanValue False) (BooleanValue False)
             (BooleanValue False))
   \<and> own_property
       (fst (snd (SetDefaultGlobalBindings ordinary_DefinePropertyOrThrow host_realm
          (host_heap, []))))
       (Some (ObjectValue 0)) (StringValue ''Reflect'') =
     Some (Descriptor (Some Undefined) (BooleanValue True) (BooleanValue False)
             (BooleanValue True))"
  by code_simp

end
